theory Spec2Isabelle
  imports Main "HOL-Library.Word"
begin

unbundle bit_operations_syntax

section \<open>The NVPTX OpenMP runtime code generator\<close>

text \<open>
  This theory embeds \<^verbatim>\<open>lib/CodeGen/CGOpenMPRuntimeNVPTX.cpp\<close>. The file is a code
  generator: its functions build LLVM IR through the builder of a \<^verbatim>\<open>CodeGenFunction\<close>.
  The embedding therefore has two layers. The first is the generator itself: each C++
  function that emits code becomes a HOL function that returns the emitted values,
  instructions and basic blocks. The second is a small interpreter for the emitted IR, so
  that statements about what the generated code does at run time, for one lane of a
  block, can be stated and proved.
\<close>

subsection \<open>Enumerations and constants\<close>

type_synonym i32 = "32 word"
type_synonym i8 = "8 word"

datatype OpenMPRTLFunctionNVPTX =
    OMPRTL_NVPTX__kmpc_kernel_init
  | OMPRTL_NVPTX__kmpc_kernel_deinit
  | OMPRTL_NVPTX__kmpc_serialized_parallel
  | OMPRTL_NVPTX__kmpc_end_serialized_parallel
  | OMPRTL_NVPTX__kmpc_kernel_prepare_parallel
  | OMPRTL_NVPTX__kmpc_kernel_parallel
  | OMPRTL_NVPTX__kmpc_kernel_end_parallel
  | OMPRTL_NVPTX__kmpc_kernel_convergent_parallel
  | OMPRTL_NVPTX__kmpc_kernel_end_convergent_parallel
  | OMPRTL_NVPTX__kmpc_kernel_convergent_simd
  | OMPRTL_NVPTX__kmpc_kernel_end_convergent_simd
  | OMPRTL_NVPTX__kmpc_warp_active_thread_mask
  | OMPRTL_NVPTX__kmpc_initialize_data_sharing_environment
  | OMPRTL_NVPTX__kmpc_data_sharing_environment_begin
  | OMPRTL_NVPTX__kmpc_data_sharing_environment_end
  | OMPRTL_NVPTX__kmpc_get_data_sharing_environment_frame

definition TASK_STATE_SIZE :: nat where
  "TASK_STATE_SIZE = 48"

definition SIMD_STATE_SIZE :: nat where
  "SIMD_STATE_SIZE = 48"

definition DS_Max_Worker_Threads :: nat where
  "DS_Max_Worker_Threads = 992"

definition DS_Slot_Size :: nat where
  "DS_Slot_Size = 4"

definition DS_Max_Worker_Warp_Size :: nat where
  "DS_Max_Worker_Warp_Size = 32"

definition DS_Max_Worker_Warp_Size_Log2 :: nat where
  "DS_Max_Worker_Warp_Size_Log2 = 5"

definition DS_Max_Worker_Warp_Size_Log2_Mask :: i32 where
  "DS_Max_Worker_Warp_Size_Log2_Mask = drop_bit (32 - DS_Max_Worker_Warp_Size_Log2) (NOT 0)"

definition DS_Worker_Warp_Slot_Size :: nat where
  "DS_Worker_Warp_Slot_Size = DS_Max_Worker_Warp_Size * DS_Slot_Size"

definition DS_Max_Teams :: nat where
  "DS_Max_Teams = 1024"

subsection \<open>Emitted values\<close>

text \<open>
  An \<^verbatim>\<open>llvm::Value *\<close> is the expression tree of the builder calls that made it. Pure
  instructions (arithmetic, comparisons, reads of the special registers, address
  computations) live only in these trees. A load is evaluated where its value is used;
  in every function embedded below the load is emitted directly before its use, with no
  store or call in between. The result of a call instruction is named by the number of
  the call.
\<close>

datatype sreg = tid_x | ntid_x | warpsize | ctaid_x

datatype Type = Int1Ty | Int8Ty | Int32Ty | Int64Ty | PointerTy

datatype Value =
    getInt32 i32
  | getInt8 i8
  | getNullValue Type
  | ConstantInt Type int
  | nvvm_read_ptx_sreg sreg
  | CreateSub Value Value
  | CreateNUWSub Value Value
  | CreateNSWAdd Value Value
  | CreateNSWSub Value Value
  | CreateAdd Value Value
  | CreateMul Value Value
  | CreateAnd Value Value
  | CreateNot Value
  | CreateAShr Value nat
  | CreateShl Value Value
  | nvvm_popc_i Value
  | CreateICmpEQ Value Value
  | CreateICmpNE Value Value
  | CreateICmpULT Value Value
  | CreateICmpSGT Value Value
  | CreateZExt Value Type
  | CreateLoad Value
  | GlobalVariable string
  | CreateInBoundsGEP Value "Value list"
  | AllocaInst string nat string
  | Function string
  | CallValue nat
  | Argument nat
  | CreateBitOrPointerCast Value
  | CreatePtrToInt Value
  | CreateIntToPtr Value

subsection \<open>Run-time values and the state of one lane\<close>

text \<open>
  Pointers are symbolic: a global, a stack slot of a function, a function, the data
  sharing frame the runtime library hands out for a thread id, or an element of one of
  these. Integer results that LLVM leaves undefined (a violated \<^verbatim>\<open>nuw\<close> or \<^verbatim>\<open>nsw\<close> flag, an
  out-of-bounds \<^verbatim>\<open>inbounds\<close> address) are the value \<open>DPoison\<close>. The result of a left shift
  by 32 or more is undefined too, but it is a number: the lane holds it in \<open>overshift\<close>,
  about which nothing is assumed.
\<close>

datatype ptr =
    PNull
  | PGlobal string
  | PAlloca string nat
  | PFunction string
  | PFrame i32
  | PGEP ptr "i32 list"

datatype dyn = DInt i32 | DByte i8 | DLong "64 word" | DBool bool | DPtr ptr | DPoison

datatype Callee =
    RuntimeFunction OpenMPRTLFunctionNVPTX
  | nvvm_barrier0
  | Direct string

datatype event = Ev Callee "dyn list"

record lane =
  nvptx_tid :: i32
  nvptx_num_threads :: i32
  nvptx_warp_size :: i32
  nvptx_block_id :: i32
  mem :: "ptr \<Rightarrow> dyn"
  regs :: "nat \<Rightarrow> dyn"
  args :: "dyn list"
  events :: "event list"
  warp_active_thread_mask :: i32
  kernel_parallel_script :: "(ptr \<times> bool) list"
  convergent_script :: "(bool \<times> bool \<times> i32 \<times> i32 \<times> i32) list"
  overshift :: "i32 \<Rightarrow> i32 \<Rightarrow> i32"

fun arith :: "(i32 \<Rightarrow> i32 \<Rightarrow> dyn) \<Rightarrow> dyn \<Rightarrow> dyn \<Rightarrow> dyn" where
  "arith f (DInt x) (DInt y) = f x y"
| "arith f _ _ = DPoison"

definition no_signed_wrap :: "int \<Rightarrow> bool" where
  "no_signed_wrap r = (- (2 ^ 31) \<le> r \<and> r < 2 ^ 31)"

fun icmp_eq :: "dyn \<Rightarrow> dyn \<Rightarrow> dyn" where
  "icmp_eq (DInt x) (DInt y) = DBool (x = y)"
| "icmp_eq (DByte x) (DByte y) = DBool (x = y)"
| "icmp_eq (DBool x) (DBool y) = DBool (x = y)"
| "icmp_eq (DPtr p) (DPtr q) = DBool (p = q)"
| "icmp_eq _ _ = DPoison"

fun not_dyn :: "dyn \<Rightarrow> dyn" where
  "not_dyn (DBool b) = DBool (\<not> b)"
| "not_dyn _ = DPoison"

fun the_ints :: "dyn list \<Rightarrow> i32 list option" where
  "the_ints [] = Some []"
| "the_ints (DInt x # ds) = (case the_ints ds of None \<Rightarrow> None | Some xs \<Rightarrow> Some (x # xs))"
| "the_ints (_ # ds) = None"

text \<open>
  The bounds of the two global arrays the generator declares:
  \<^verbatim>\<open>__openmp_nvptx_parallelism_levels\<close> is \<^verbatim>\<open>[DS_Max_Worker_Threads x i32]\<close>, and
  \<^verbatim>\<open>__openmp_nvptx_shared_data_slots\<close> is an array of \<^verbatim>\<open>DS_Max_Teams\<close> records of one master
  slot and \<^verbatim>\<open>DS_Max_Worker_Threads / DS_Max_Worker_Warp_Size\<close> worker warp slots. Other
  objects are not bounds-checked.
\<close>

definition index_below :: "i32 \<Rightarrow> nat \<Rightarrow> bool" where
  "index_below i n = (0 \<le> sint i \<and> sint i < int n)"

fun inbounds :: "ptr \<Rightarrow> i32 list \<Rightarrow> bool" where
  "inbounds (PGlobal g) idx =
     (if g = ''__openmp_nvptx_parallelism_levels'' then
        (case idx of [z, i] \<Rightarrow> z = 0 \<and> index_below i DS_Max_Worker_Threads | _ \<Rightarrow> False)
      else if g = ''__openmp_nvptx_shared_data_slots'' then
        (case idx of
           [z, b, f] \<Rightarrow> z = 0 \<and> index_below b DS_Max_Teams \<and> f = 0
         | [z, b, f, w] \<Rightarrow> z = 0 \<and> index_below b DS_Max_Teams \<and> f = 1 \<and>
             index_below w (DS_Max_Worker_Threads div DS_Max_Worker_Warp_Size)
         | _ \<Rightarrow> False)
      else True)"
| "inbounds _ idx = True"

fun gep :: "dyn \<Rightarrow> i32 list option \<Rightarrow> dyn" where
  "gep (DPtr p) (Some idx) = (if inbounds p idx then DPtr (PGEP p idx) else DPoison)"
| "gep _ _ = DPoison"

fun zext :: "dyn \<Rightarrow> Type \<Rightarrow> dyn" where
  "zext (DBool b) Int8Ty = DByte (if b then 1 else 0)"
| "zext (DBool b) Int32Ty = DInt (if b then 1 else 0)"
| "zext (DByte x) Int32Ty = DInt (ucast x)"
| "zext _ _ = DPoison"

fun load :: "lane \<Rightarrow> dyn \<Rightarrow> dyn" where
  "load s (DPtr p) = mem s p"
| "load s _ = DPoison"

fun eval :: "lane \<Rightarrow> Value \<Rightarrow> dyn" where
  "eval s (getInt32 c) = DInt c"
| "eval s (getInt8 c) = DByte c"
| "eval s (getNullValue T) =
     (case T of Int1Ty \<Rightarrow> DBool False | Int8Ty \<Rightarrow> DByte 0 | Int32Ty \<Rightarrow> DInt 0
      | Int64Ty \<Rightarrow> DLong 0 | PointerTy \<Rightarrow> DPtr PNull)"
| "eval s (ConstantInt T c) =
     (case T of Int1Ty \<Rightarrow> DBool (c \<noteq> 0) | Int8Ty \<Rightarrow> DByte (of_int c)
      | Int32Ty \<Rightarrow> DInt (of_int c) | Int64Ty \<Rightarrow> DLong (of_int c) | PointerTy \<Rightarrow> DPoison)"
| "eval s (nvvm_read_ptx_sreg r) =
     DInt (case r of tid_x \<Rightarrow> nvptx_tid s | ntid_x \<Rightarrow> nvptx_num_threads s
           | warpsize \<Rightarrow> nvptx_warp_size s | ctaid_x \<Rightarrow> nvptx_block_id s)"
| "eval s (CreateSub a b) = arith (\<lambda>x y. DInt (x - y)) (eval s a) (eval s b)"
| "eval s (CreateNUWSub a b) =
     arith (\<lambda>x y. if y \<le> x then DInt (x - y) else DPoison) (eval s a) (eval s b)"
| "eval s (CreateNSWAdd a b) =
     arith (\<lambda>x y. if no_signed_wrap (sint x + sint y) then DInt (x + y) else DPoison)
       (eval s a) (eval s b)"
| "eval s (CreateNSWSub a b) =
     arith (\<lambda>x y. if no_signed_wrap (sint x - sint y) then DInt (x - y) else DPoison)
       (eval s a) (eval s b)"
| "eval s (CreateAdd a b) = arith (\<lambda>x y. DInt (x + y)) (eval s a) (eval s b)"
| "eval s (CreateMul a b) = arith (\<lambda>x y. DInt (x * y)) (eval s a) (eval s b)"
| "eval s (CreateAnd a b) = arith (\<lambda>x y. DInt (x AND y)) (eval s a) (eval s b)"
| "eval s (CreateNot a) = (case eval s a of DInt x \<Rightarrow> DInt (NOT x) | _ \<Rightarrow> DPoison)"
| "eval s (CreateAShr a n) =
     (case eval s a of DInt x \<Rightarrow> DInt (signed_drop_bit n x) | _ \<Rightarrow> DPoison)"
| "eval s (CreateShl a b) =
     arith (\<lambda>x y. DInt (if unat y < 32 then push_bit (unat y) x else overshift s x y))
       (eval s a) (eval s b)"
| "eval s (nvvm_popc_i a) =
     (case eval s a of DInt x \<Rightarrow> DInt (of_nat (length (filter (bit x) [0..<32])))
      | _ \<Rightarrow> DPoison)"
| "eval s (CreateICmpEQ a b) = icmp_eq (eval s a) (eval s b)"
| "eval s (CreateICmpNE a b) = not_dyn (icmp_eq (eval s a) (eval s b))"
| "eval s (CreateICmpULT a b) = arith (\<lambda>x y. DBool (x < y)) (eval s a) (eval s b)"
| "eval s (CreateICmpSGT a b) = arith (\<lambda>x y. DBool (sint y < sint x)) (eval s a) (eval s b)"
| "eval s (CreateZExt a T) = zext (eval s a) T"
| "eval s (CreateLoad a) = load s (eval s a)"
| "eval s (GlobalVariable g) = DPtr (PGlobal g)"
| "eval s (CreateInBoundsGEP a idx) = gep (eval s a) (the_ints (map (eval s) idx))"
| "eval s (AllocaInst f n name) = DPtr (PAlloca f n)"
| "eval s (Function f) = DPtr (PFunction f)"
| "eval s (CallValue n) = regs s n"
| "eval s (Argument n) = (if n < length (args s) then args s ! n else DPoison)"
| "eval s (CreateBitOrPointerCast a) = eval s a"
| "eval s (CreatePtrToInt a) = eval s a"
| "eval s (CreateIntToPtr a) = eval s a"

subsection \<open>Thread identifiers\<close>

text \<open>
  The \<^verbatim>\<open>getNVPTX...\<close> functions and their clients take the \<^verbatim>\<open>CodeGenFunction\<close> only to reach
  its builder; the value they return does not depend on it.
\<close>

definition getNVPTXWarpSize :: Value where
  "getNVPTXWarpSize = nvvm_read_ptx_sreg warpsize"

definition getNVPTXThreadID :: Value where
  "getNVPTXThreadID = nvvm_read_ptx_sreg tid_x"

definition getNVPTXThreadWarpID :: Value where
  "getNVPTXThreadWarpID =
     CreateAnd getNVPTXThreadID (getInt32 DS_Max_Worker_Warp_Size_Log2_Mask)"

definition getNVPTXBlockID :: Value where
  "getNVPTXBlockID = nvvm_read_ptx_sreg ctaid_x"

definition getNVPTXWarpID :: Value where
  "getNVPTXWarpID = CreateAShr getNVPTXThreadID DS_Max_Worker_Warp_Size_Log2"

definition getNVPTXNumThreads :: Value where
  "getNVPTXNumThreads = nvvm_read_ptx_sreg ntid_x"

definition getThreadLimit :: Value where
  "getThreadLimit = CreateSub getNVPTXNumThreads getNVPTXWarpSize"

definition getMasterThreadID :: Value where
  "getMasterThreadID =
     (let NumThreads = getNVPTXNumThreads;
          Mask = CreateSub getNVPTXWarpSize (getInt32 1)
      in CreateAnd (CreateSub NumThreads (getInt32 1)) (CreateNot Mask))"

definition getNumWorkers :: Value where
  "getNumWorkers = CreateNUWSub getNVPTXNumThreads (getInt32 32)"

definition getTeamThreadId :: Value where
  "getTeamThreadId =
     (let Mask = CreateNUWSub getMasterThreadID (getInt32 1)
      in CreateAnd getNVPTXThreadID Mask)"

definition getGlobalThreadId :: Value where
  "getGlobalThreadId =
     CreateAdd (CreateMul getNVPTXBlockID getNumWorkers) getTeamThreadId"


subsection \<open>A lane at kernel start\<close>

text \<open>
  The level array lives in the shared address space (\<^verbatim>\<open>ADDRESS_SPACE_SHARED\<close>); its null
  initializer is what common linkage requires, and no emitted code stores to the array
  before the first region (\<^verbatim>\<open>initializeParallelismLevel\<close> has no caller). So nothing in
  memory has a defined content when a kernel starts. \<open>at_level v s\<close> is the lane \<open>s\<close> once
  its own element of the level array holds \<open>v\<close>.
\<close>

definition kernel_start :: "i32 \<Rightarrow> i32 \<Rightarrow> i32 \<Rightarrow> i32 \<Rightarrow> lane" where
  "kernel_start t N W b =
     \<lparr>nvptx_tid = t, nvptx_num_threads = N, nvptx_warp_size = W, nvptx_block_id = b,
      mem = (\<lambda>p. DPoison), regs = (\<lambda>n. DPoison), args = [], events = [],
      warp_active_thread_mask = 0, kernel_parallel_script = [],
      convergent_script = [], overshift = (\<lambda>x y. 0)\<rparr>"

definition at_level :: "i32 \<Rightarrow> lane \<Rightarrow> lane" where
  "at_level v s =
     s\<lparr>mem := (mem s)
           (PGEP (PGlobal ''__openmp_nvptx_parallelism_levels'') [0, nvptx_tid s] := DInt v)\<rparr>"

subsection \<open>The builder\<close>

text \<open>
  Modelled from the spec: the primitives of the generic emitter (basic blocks, branches,
  temporaries and calls of \<^verbatim>\<open>CodeGenFunction\<close> and its \<^verbatim>\<open>CGBuilderTy\<close>), which the
  specification lists as consumed from outside and whose code is not among the sources.
  They behave as in clang. A function under construction is the list of its basic blocks
  (a block is named by its position), the insertion point of the builder, and a counter
  that numbers calls and stack slots. \<^verbatim>\<open>createBasicBlock\<close> makes a block without moving
  the insertion point. \<^verbatim>\<open>EmitBranch\<close> ends the current block with a branch unless it
  already has a terminator, and clears the insertion point. \<^verbatim>\<open>EmitBlock\<close> falls through into
  the block and continues there. An instruction emitted without an insertion point is
  dropped. \<^verbatim>\<open>InitTempAlloca\<close> places the initializing store at the top of the entry
  block, where clang keeps its alloca insertion point, not at the current position.
  \<^verbatim>\<open>StartFunction\<close> gives every parameter a stack slot and stores the argument there;
  \<^verbatim>\<open>FinishFunction\<close> returns from wherever the insertion point is, loading the return
  slot when there is one.
\<close>

datatype Terminator = Br nat | CondBr Value nat nat | Ret "Value option"

datatype Inst = StoreInst Value Value | CallInst nat Callee "Value list"

record BasicBlock =
  BBName :: string
  Insts :: "Inst list"
  BBTerm :: "Terminator option"

record CodeGenFunction =
  CurFn :: string
  Blocks :: "BasicBlock list"
  InsertBlock :: "nat option"
  NumValues :: nat
  ReturnValue :: "Value option"
  ParamAddrs :: "Value list"

definition createBasicBlock :: "string \<Rightarrow> CodeGenFunction \<Rightarrow> nat \<times> CodeGenFunction" where
  "createBasicBlock name CGF =
     (length (Blocks CGF),
      CGF\<lparr>Blocks := Blocks CGF @ [\<lparr>BBName = name, Insts = [], BBTerm = None\<rparr>]\<rparr>)"

definition Insert :: "Inst \<Rightarrow> CodeGenFunction \<Rightarrow> CodeGenFunction" where
  "Insert I CGF =
     (case InsertBlock CGF of
        None \<Rightarrow> CGF
      | Some b \<Rightarrow>
          CGF\<lparr>Blocks := (Blocks CGF)[b := (Blocks CGF ! b)\<lparr>Insts := Insts (Blocks CGF ! b) @ [I]\<rparr>]\<rparr>)"

text \<open>Several instructions appended to a block; \<open>Insert\<close> is the case of one.\<close>

definition appendInsts :: "nat \<Rightarrow> Inst list \<Rightarrow> CodeGenFunction \<Rightarrow> CodeGenFunction" where
  "appendInsts b Is F =
     F\<lparr>Blocks := (Blocks F)[b := (Blocks F ! b)\<lparr>Insts := Insts (Blocks F ! b) @ Is\<rparr>]\<rparr>"

definition Terminate :: "Terminator \<Rightarrow> CodeGenFunction \<Rightarrow> CodeGenFunction" where
  "Terminate T CGF =
     (case InsertBlock CGF of
        None \<Rightarrow> CGF
      | Some b \<Rightarrow> CGF\<lparr>Blocks := (Blocks CGF)[b := (Blocks CGF ! b)\<lparr>BBTerm := Some T\<rparr>]\<rparr>)"

definition EmitBranch :: "nat \<Rightarrow> CodeGenFunction \<Rightarrow> CodeGenFunction" where
  "EmitBranch Target CGF =
     (case InsertBlock CGF of
        None \<Rightarrow> CGF
      | Some b \<Rightarrow>
          (if BBTerm (Blocks CGF ! b) = None then Terminate (Br Target) CGF else CGF)
            \<lparr>InsertBlock := None\<rparr>)"

definition EmitBlock :: "nat \<Rightarrow> CodeGenFunction \<Rightarrow> CodeGenFunction" where
  "EmitBlock BB CGF = (EmitBranch BB CGF)\<lparr>InsertBlock := Some BB\<rparr>"

definition CreateCondBr :: "Value \<Rightarrow> nat \<Rightarrow> nat \<Rightarrow> CodeGenFunction \<Rightarrow> CodeGenFunction" where
  "CreateCondBr Cond True' False' CGF = Terminate (CondBr Cond True' False') CGF"

definition CreateStore :: "Value \<Rightarrow> Value \<Rightarrow> CodeGenFunction \<Rightarrow> CodeGenFunction" where
  "CreateStore Val Addr CGF = Insert (StoreInst Val Addr) CGF"

definition CreateCall :: "Callee \<Rightarrow> Value list \<Rightarrow> CodeGenFunction \<Rightarrow> Value \<times> CodeGenFunction" where
  "CreateCall F Args CGF =
     (CallValue (NumValues CGF),
      Insert (CallInst (NumValues CGF) F Args) (CGF\<lparr>NumValues := Suc (NumValues CGF)\<rparr>))"

definition CreateTempAlloca :: "string \<Rightarrow> CodeGenFunction \<Rightarrow> Value \<times> CodeGenFunction" where
  "CreateTempAlloca name CGF =
     (AllocaInst (CurFn CGF) (NumValues CGF) name, CGF\<lparr>NumValues := Suc (NumValues CGF)\<rparr>)"

definition InitTempAlloca :: "Value \<Rightarrow> Value \<Rightarrow> CodeGenFunction \<Rightarrow> CodeGenFunction" where
  "InitTempAlloca Var Init CGF =
     CGF\<lparr>Blocks :=
           (Blocks CGF)[0 := (Blocks CGF ! 0)\<lparr>Insts := StoreInst Init Var # Insts (Blocks CGF ! 0)\<rparr>]\<rparr>"

fun EmitParams :: "nat \<Rightarrow> nat \<Rightarrow> CodeGenFunction \<Rightarrow> CodeGenFunction" where
  "EmitParams i 0 CGF = CGF"
| "EmitParams i (Suc n) CGF =
     (let (Addr, CGF) = CreateTempAlloca ''.addr'' CGF;
          CGF = CreateStore (Argument i) Addr CGF
      in EmitParams (Suc i) n (CGF\<lparr>ParamAddrs := ParamAddrs CGF @ [Addr]\<rparr>))"

definition StartFunction :: "string \<Rightarrow> bool \<Rightarrow> nat \<Rightarrow> CodeGenFunction" where
  "StartFunction FnName hasReturnValue numArgs =
     (let CGF = \<lparr>CurFn = FnName, Blocks = [\<lparr>BBName = ''entry'', Insts = [], BBTerm = None\<rparr>],
                 InsertBlock = Some 0, NumValues = 0, ReturnValue = None,
                 ParamAddrs = []\<rparr>;
          CGF = (if hasReturnValue
                 then (let (RV, CGF) = CreateTempAlloca ''retval'' CGF
                       in CGF\<lparr>ReturnValue := Some RV\<rparr>)
                 else CGF)
      in EmitParams 0 numArgs CGF)"

definition FinishFunction :: "CodeGenFunction \<Rightarrow> CodeGenFunction" where
  "FinishFunction CGF =
     (case InsertBlock CGF of
        None \<Rightarrow> CGF
      | Some b \<Rightarrow>
          (if BBTerm (Blocks CGF ! b) = None
           then Terminate (Ret (map_option CreateLoad (ReturnValue CGF))) CGF else CGF)
            \<lparr>InsertBlock := None\<rparr>)"

subsection \<open>Running the emitted code\<close>

text \<open>
  One lane runs a function from a block, with fuel. The run ends with \<open>Returned\<close> at a
  \<^verbatim>\<open>ret\<close>, with \<open>Open l\<close> at the end of a block \<open>l\<close> that has no terminator yet (the
  insertion point: the code that will follow is not emitted), or fails: undefined
  behaviour (a branch on poison, a store through a non-pointer), a runtime call that never
  returns, or no fuel. Every call appends an event with the evaluated arguments. A call to
  a function of the module runs it; a call to any other function only leaves the event.
  The device runtime library is outside the generator; of its entry points the model
  fixes what the protocol needs: \<^verbatim>\<open>__kmpc_kernel_parallel\<close> stores the next work function
  of the script through its argument and returns the active flag (with the script
  exhausted the master never comes back to the barrier, and the call blocks);
  \<^verbatim>\<open>__kmpc_get_data_sharing_environment_frame\<close> returns the frame of the given thread;
  \<^verbatim>\<open>__kmpc_warp_active_thread_mask\<close> returns the mask; the convergent calls store what the
  script says through their output arguments.
\<close>

datatype failure = Undefined | Blocked | OutOfFuel

datatype result = Returned dyn lane | Open nat lane | Failed failure

definition store :: "dyn \<Rightarrow> dyn \<Rightarrow> lane \<Rightarrow> failure + lane" where
  "store v a s = (case a of DPtr p \<Rightarrow> Inr (s\<lparr>mem := (mem s)(p := v)\<rparr>) | _ \<Rightarrow> Inl Undefined)"

definition set_reg :: "nat \<Rightarrow> dyn \<Rightarrow> lane \<Rightarrow> lane" where
  "set_reg n v s = s\<lparr>regs := (regs s)(n := v)\<rparr>"

fun runtime_call :: "OpenMPRTLFunctionNVPTX \<Rightarrow> nat \<Rightarrow> dyn list \<Rightarrow> lane \<Rightarrow> failure + lane" where
  "runtime_call OMPRTL_NVPTX__kmpc_kernel_parallel n ds s =
     (case kernel_parallel_script s of
        [] \<Rightarrow> Inl Blocked
      | (fn, active) # rest \<Rightarrow>
          (case ds of
             [a] \<Rightarrow>
               (case store (DPtr fn) a s of
                  Inl e \<Rightarrow> Inl e
                | Inr s' \<Rightarrow> Inr (set_reg n (DBool active) (s'\<lparr>kernel_parallel_script := rest\<rparr>)))
           | _ \<Rightarrow> Inl Undefined))"
| "runtime_call OMPRTL_NVPTX__kmpc_get_data_sharing_environment_frame n ds s =
     (case ds of [DInt t] \<Rightarrow> Inr (set_reg n (DPtr (PFrame t)) s) | _ \<Rightarrow> Inl Undefined)"
| "runtime_call OMPRTL_NVPTX__kmpc_warp_active_thread_mask n ds s =
     Inr (set_reg n (DInt (warp_active_thread_mask s)) s)"
| "runtime_call OMPRTL_NVPTX__kmpc_kernel_convergent_parallel n ds s =
     (case convergent_script s of
        [] \<Rightarrow> Inl Blocked
      | (active, final, source, laneid, numlanes) # rest \<Rightarrow>
          (case ds of
             [buf, pf, ps] \<Rightarrow>
               (case store (DByte (if final then 1 else 0)) pf s of
                  Inl e \<Rightarrow> Inl e
                | Inr s1 \<Rightarrow>
                    (case store (DInt source) ps s1 of
                       Inl e \<Rightarrow> Inl e
                     | Inr s2 \<Rightarrow>
                         Inr (set_reg n (DBool active) (s2\<lparr>convergent_script := rest\<rparr>))))
           | _ \<Rightarrow> Inl Undefined))"
| "runtime_call OMPRTL_NVPTX__kmpc_kernel_convergent_simd n ds s =
     (case convergent_script s of
        [] \<Rightarrow> Inl Blocked
      | (active, final, source, laneid, numlanes) # rest \<Rightarrow>
          (case ds of
             [buf, pf, ps, pl, pn] \<Rightarrow>
               (case store (DByte (if final then 1 else 0)) pf s of
                  Inl e \<Rightarrow> Inl e
                | Inr s1 \<Rightarrow>
                    (case store (DInt source) ps s1 of
                       Inl e \<Rightarrow> Inl e
                     | Inr s2 \<Rightarrow>
                         (case store (DInt laneid) pl s2 of
                            Inl e \<Rightarrow> Inl e
                          | Inr s3 \<Rightarrow>
                              (case store (DInt numlanes) pn s3 of
                                 Inl e \<Rightarrow> Inl e
                               | Inr s4 \<Rightarrow>
                                   Inr (set_reg n (DBool active)
                                          (s4\<lparr>convergent_script := rest\<rparr>))))))
           | _ \<Rightarrow> Inl Undefined))"
| "runtime_call f n ds s = Inr (set_reg n DPoison s)"

type_synonym Module = "string \<Rightarrow> CodeGenFunction option"

fun run :: "Module \<Rightarrow> nat \<Rightarrow> CodeGenFunction \<Rightarrow> nat \<Rightarrow> lane \<Rightarrow> result"
  and exec_insts :: "Module \<Rightarrow> nat \<Rightarrow> Inst list \<Rightarrow> lane \<Rightarrow> failure + lane"
  and exec_inst :: "Module \<Rightarrow> nat \<Rightarrow> Inst \<Rightarrow> lane \<Rightarrow> failure + lane"
  where
  "run M 0 F l s = Failed OutOfFuel"
| "run M (Suc n) F l s =
     (if length (Blocks F) \<le> l then Failed Undefined
      else
        (case exec_insts M n (Insts (Blocks F ! l)) s of
           Inl e \<Rightarrow> Failed e
         | Inr s' \<Rightarrow>
             (case BBTerm (Blocks F ! l) of
                None \<Rightarrow> Open l s'
              | Some (Br t) \<Rightarrow> run M n F t s'
              | Some (CondBr c t e) \<Rightarrow>
                  (case eval s' c of
                     DBool b \<Rightarrow> run M n F (if b then t else e) s'
                   | _ \<Rightarrow> Failed Undefined)
              | Some (Ret v) \<Rightarrow>
                  Returned (case v of None \<Rightarrow> DPoison | Some x \<Rightarrow> eval s' x) s')))"
| "exec_insts M n [] s = Inr s"
| "exec_insts M n (I # Is) s =
     (case exec_inst M n I s of Inl e \<Rightarrow> Inl e | Inr s' \<Rightarrow> exec_insts M n Is s')"
| "exec_inst M n (StoreInst v a) s = store (eval s v) (eval s a) s"
| "exec_inst M n (CallInst k callee as) s =
     (let ds = map (eval s) as; s1 = s\<lparr>events := events s @ [Ev callee ds]\<rparr>
      in case callee of
           nvvm_barrier0 \<Rightarrow> Inr s1
         | RuntimeFunction f \<Rightarrow> runtime_call f k ds s1
         | Direct f \<Rightarrow>
             (case M f of
                None \<Rightarrow> Inr (set_reg k DPoison s1)
              | Some G \<Rightarrow>
                  (case n of
                     0 \<Rightarrow> Inl OutOfFuel
                   | Suc m \<Rightarrow>
                       (case run M m G 0 (s1\<lparr>args := ds, regs := (\<lambda>r. DPoison)\<rparr>) of
                          Returned v s2 \<Rightarrow>
                            Inr (set_reg k v (s2\<lparr>args := args s, regs := regs s\<rparr>))
                        | Open l s2 \<Rightarrow> Inl Undefined
                        | Failed e \<Rightarrow> Inl e))))"


subsection \<open>The run-time parallelism level\<close>

definition getParallelismLevelLValue :: Value where
  "getParallelismLevelLValue =
     CreateInBoundsGEP (GlobalVariable ''__openmp_nvptx_parallelism_levels'')
       [getNullValue Int32Ty, getNVPTXThreadID]"

definition getParallelismLevel :: Value where
  "getParallelismLevel = CreateLoad getParallelismLevelLValue"

definition increaseParallelismLevel :: "bool \<Rightarrow> CodeGenFunction \<Rightarrow> CodeGenFunction" where
  "increaseParallelismLevel IsSimd CGF =
     (let Increment = (if IsSimd then 10 else 1);
          Addr = getParallelismLevelLValue;
          CurVal = CreateLoad Addr;
          NewVal = CreateNSWAdd CurVal (getInt32 Increment)
      in CreateStore NewVal Addr CGF)"

definition decreaseParallelismLevel :: "bool \<Rightarrow> CodeGenFunction \<Rightarrow> CodeGenFunction" where
  "decreaseParallelismLevel IsSimd CGF =
     (let Increment = (if IsSimd then 10 else 1);
          Addr = getParallelismLevelLValue;
          CurVal = CreateLoad Addr;
          NewVal = CreateNSWSub CurVal (getInt32 Increment)
      in CreateStore NewVal Addr CGF)"

definition initializeParallelismLevel :: "CodeGenFunction \<Rightarrow> CodeGenFunction" where
  "initializeParallelismLevel CGF =
     CreateStore (getNullValue Int32Ty) getParallelismLevelLValue CGF"

text \<open>
  The body of an outlined parallel region (\<open>IsSimd\<close> false) or simd region (\<open>IsSimd\<close>
  true) is emitted by the lambda \<^verbatim>\<open>CodeGenWithDataSharing\<close> of
  \<^verbatim>\<open>emitParallelOrTeamsOutlinedFunction\<close> and \<^verbatim>\<open>emitSimdOutlinedFunction\<close>; \<open>CodeGen\<close> is the
  code generator of the region body, a callback of the caller.
\<close>

type_synonym RegionCodeGenTy = "CodeGenFunction \<Rightarrow> CodeGenFunction"

definition CodeGenWithDataSharing :: "bool \<Rightarrow> RegionCodeGenTy \<Rightarrow> RegionCodeGenTy" where
  "CodeGenWithDataSharing IsSimd CodeGen CGF =
     (let CGF = increaseParallelismLevel IsSimd CGF;
          CGF = CodeGen CGF
      in decreaseParallelismLevel IsSimd CGF)"

text \<open>The parallelism level of the lane in the state in which a run ends.\<close>

definition level_after :: "result \<Rightarrow> dyn" where
  "level_after r =
     (case r of
        Open l s \<Rightarrow> eval s getParallelismLevel
      | Returned v s \<Rightarrow> eval s getParallelismLevel
      | Failed e \<Rightarrow> DPoison)"

subsection \<open>The parallelism level classifier and the three-way dispatch\<close>

record CGOpenMPRuntimeNVPTX =
  IsOrphaned :: bool
  ParallelNestingLevel :: int
  Work :: "string list"





definition InL0 :: "CGOpenMPRuntimeNVPTX \<Rightarrow> bool" where
  "InL0 RT = (\<not> IsOrphaned RT \<and> ParallelNestingLevel RT = 0)"

definition InL1 :: "CGOpenMPRuntimeNVPTX \<Rightarrow> bool" where
  "InL1 RT = (\<not> IsOrphaned RT \<and> ParallelNestingLevel RT = 1)"

definition InL1Plus :: "CGOpenMPRuntimeNVPTX \<Rightarrow> bool" where
  "InL1Plus RT = (\<not> IsOrphaned RT \<and> ParallelNestingLevel RT \<ge> 1)"

definition IndeterminateLevel :: "CGOpenMPRuntimeNVPTX \<Rightarrow> bool" where
  "IndeterminateLevel RT = IsOrphaned RT"

definition emitParallelismLevelCode ::
  "CGOpenMPRuntimeNVPTX \<Rightarrow> RegionCodeGenTy \<Rightarrow> RegionCodeGenTy \<Rightarrow> RegionCodeGenTy \<Rightarrow>
   CodeGenFunction \<Rightarrow> CodeGenFunction" where
  "emitParallelismLevelCode RT Level0 Level1 Sequential CGF =
     (let OnlyInL0 = InL0 RT;
          OnlyInL1 = InL1 RT;
          OnlySequential = (\<not> IsOrphaned RT \<and> \<not> InL0 RT \<and> \<not> InL1 RT);
          (AfterBB, CGF) = createBasicBlock ''.after.parallel'' CGF;
          CGF =
            (if \<not> OnlyInL1 \<and> \<not> OnlySequential then
               (let (LBB, CGF) = createBasicBlock ''.level0.parallel'' CGF;
                    (NextBB, CGF) =
                      (if \<not> OnlyInL0 then
                         (let (NextBB, CGF) = createBasicBlock ''.next.parallel'' CGF;
                              ThreadID = getNVPTXThreadID;
                              MasterID = getMasterThreadID;
                              Cond = CreateICmpEQ ThreadID MasterID
                          in (Some NextBB, CreateCondBr Cond LBB NextBB CGF))
                       else (None, CGF));
                    CGF = EmitBlock LBB CGF;
                    CGF = Level0 CGF;
                    CGF = EmitBranch AfterBB CGF
                in case NextBB of None \<Rightarrow> CGF | Some BB \<Rightarrow> EmitBlock BB CGF)
             else CGF);
          CGF =
            (if \<not> OnlyInL0 \<and> \<not> OnlySequential then
               (let (LBB, CGF) = createBasicBlock ''.level1.parallel'' CGF;
                    (NextBB, CGF) =
                      (if \<not> OnlyInL1 then
                         (let (NextBB, CGF) = createBasicBlock ''.next.parallel'' CGF;
                              ParallelLevelVal = getParallelismLevel;
                              Cond = CreateICmpEQ ParallelLevelVal (getInt32 1)
                          in (Some NextBB, CreateCondBr Cond LBB NextBB CGF))
                       else (None, CGF));
                    CGF = EmitBlock LBB CGF;
                    CGF = Level1 CGF;
                    CGF = EmitBranch AfterBB CGF
                in case NextBB of None \<Rightarrow> CGF | Some BB \<Rightarrow> EmitBlock BB CGF)
             else CGF);
          CGF =
            (if \<not> OnlyInL0 \<and> \<not> OnlyInL1 then
               (let (SeqBB, CGF) = createBasicBlock ''.sequential.parallel'' CGF;
                    CGF =
                      (if \<not> OnlySequential then
                         (let ParallelLevelVal = getParallelismLevel;
                              Cond = CreateICmpSGT ParallelLevelVal (getInt32 1)
                          in CreateCondBr Cond SeqBB AfterBB CGF)
                       else CGF);
                    CGF = EmitBlock SeqBB CGF
                in Sequential CGF)
             else CGF)
      in EmitBlock AfterBB CGF)"

text \<open>
  A region whose code is one call to a function outside the module: the event of the call
  tells that the region has run. \<open>regions_run\<close> lists the functions called so far,
  \<open>regions_emitted\<close> the functions called anywhere in the emitted code, \<open>guards\<close> the conditions
  of the conditional branches. \<open>outcome\<close> is what the theorems observe of a run: the block
  at whose open end it stands and the calls made, or, after a return, the calls made.
\<close>

definition EmitRegion :: "string \<Rightarrow> RegionCodeGenTy" where
  "EmitRegion name CGF = snd (CreateCall (Direct name) [] CGF)"

definition called :: "event \<Rightarrow> string list" where
  "called e = (case e of Ev (Direct f) ds \<Rightarrow> [f] | _ \<Rightarrow> [])"

definition regions_run :: "lane \<Rightarrow> string list" where
  "regions_run s = concat (map called (events s))"




datatype outcome = StandsAt nat "string list" | Left "string list" | NoOutcome failure

definition outcome :: "result \<Rightarrow> outcome" where
  "outcome r =
     (case r of
        Open l s \<Rightarrow> StandsAt l (regions_run s)
      | Returned v s \<Rightarrow> Left (regions_run s)
      | Failed e \<Rightarrow> NoOutcome e)"

text \<open>
  The dispatch of one construct, emitted at the start of a function, with the three
  regions marked by their names. \<open>LevelSelected\<close> is the level the dispatch takes for a
  lane whose run-time parallelism level is \<open>PL\<close>: the static one when the nesting is
  known, and otherwise the first of the three guards that holds, if any does.
\<close>

definition dispatch :: "CGOpenMPRuntimeNVPTX \<Rightarrow> string \<Rightarrow> CodeGenFunction" where
  "dispatch RT fn =
     emitParallelismLevelCode RT (EmitRegion ''Level0'') (EmitRegion ''Level1'')
       (EmitRegion ''Sequential'') (StartFunction fn False 0)"


definition MasterThreadId :: "lane \<Rightarrow> i32" where
  "MasterThreadId s = (nvptx_num_threads s - 1) AND NOT (nvptx_warp_size s - 1)"

definition LevelSelected :: "CGOpenMPRuntimeNVPTX \<Rightarrow> lane \<Rightarrow> i32 \<Rightarrow> string list" where
  "LevelSelected RT s PL =
     (if \<not> IsOrphaned RT then
        (if ParallelNestingLevel RT = 0 then [''Level0'']
         else if ParallelNestingLevel RT = 1 then [''Level1''] else [''Sequential''])
      else if nvptx_tid s = MasterThreadId s then [''Level0'']
      else if PL = 1 then [''Level1'']
      else if 1 <s PL then [''Sequential''] else [])"

subsection \<open>Front-end input of the data sharing planner\<close>

text \<open>
  What \<^verbatim>\<open>createDataSharingInfo\<close> reads from the AST. A statement is an OpenMP executable
  directive (with the two facts the planner asks of its kind, \<^verbatim>\<open>isOpenMPParallelDirective\<close>
  and \<^verbatim>\<open>isOpenMPSimdDirective\<close>, and its associated captured statement) or any other
  statement with its children, some of which may be null. A capture carries its kind, the
  captured variable, whether that variable has local storage, and the type of the
  expression that initializes the capture. The field of the captured record has a captured
  VLA type exactly when the capture is a VLA type capture. \<^verbatim>\<open>LocalDeclMap\<close> is the map behind
  \<^verbatim>\<open>CGF.GetAddrOfLocalVar\<close>. An \<^verbatim>\<open>assert\<close> that fails and an \<^verbatim>\<open>llvm::cast\<close> to the wrong class
  abort the compiler.
\<close>

datatype abort = AssertionFailed string | CastFailed string

type_synonym VarDecl = string

datatype QualType =
    BuiltinType string
  | PointerType QualType
  | ConstantArrayType QualType nat
  | RecordType string

datatype VariableCaptureKind = VCK_This | VCK_ByRef | VCK_ByCopy | VCK_VLAType

record Capture =
  CaptureKind :: VariableCaptureKind
  CapturedVar :: VarDecl
  hasLocalStorage :: bool
  InitType :: QualType

datatype Stmt =
    OMPExecutableDirective bool bool "CapturedStmt option"
  | OtherStmt "Stmt option list"
and CapturedStmt = CapturedStmt (captures: "Capture list") (getCapturedStmt: Stmt)


function collectCapturedStmts ::
  "Stmt option list \<Rightarrow> CapturedStmt list \<Rightarrow> abort + CapturedStmt list" where
  "collectCapturedStmts WorkList CapturedStmts =
     (if WorkList = [] then Inr CapturedStmts
      else
        (let CurStmt = last WorkList; WorkList = butlast WorkList
         in case CurStmt of
              None \<Rightarrow> collectCapturedStmts WorkList CapturedStmts
            | Some (OMPExecutableDirective isParallel isSimd AssociatedStmt) \<Rightarrow>
                (if isParallel \<or> isSimd then
                   (case AssociatedStmt of
                      None \<Rightarrow> Inl (CastFailed ''CapturedStmt'')
                    | Some CS \<Rightarrow> collectCapturedStmts WorkList (CapturedStmts @ [CS]))
                 else
                   (case AssociatedStmt of
                      None \<Rightarrow> collectCapturedStmts WorkList CapturedStmts
                    | Some CS \<Rightarrow>
                        collectCapturedStmts (WorkList @ [Some (getCapturedStmt CS)])
                          CapturedStmts))
            | Some (OtherStmt children) \<Rightarrow>
                collectCapturedStmts (WorkList @ children) CapturedStmts))"
  by pat_completeness auto
termination
proof (relation "measure (\<lambda>(WorkList, CapturedStmts). size_list (size_option size) WorkList)")
  have sz_last: "size_list f xs = size_list f (butlast xs) + f (last xs) + 1"
    if "xs \<noteq> []" for f :: "Stmt option \<Rightarrow> nat" and xs
    using that by (induction xs) auto
  have body: "size (getCapturedStmt CS) < size CS" for CS
    by (cases CS) simp
  fix WorkList :: "Stmt option list" and CapturedStmts :: "CapturedStmt list"
    and CurStmt WorkList'
  assume ne: "WorkList \<noteq> []" and cur: "CurStmt = last WorkList"
    and rest: "WorkList' = butlast WorkList"
  note sz = sz_last [OF ne, of "size_option size"]
  {
    assume "CurStmt = None"
    then show "((WorkList', CapturedStmts), WorkList, CapturedStmts) \<in>
        measure (\<lambda>(WorkList, CapturedStmts). size_list (size_option size) WorkList)"
      using sz rest by simp
  }
  {
    fix S isParallel isSimd AssociatedStmt CS
    assume "CurStmt = Some S" "S = OMPExecutableDirective isParallel isSimd AssociatedStmt"
      "isParallel \<or> isSimd" "AssociatedStmt = Some CS"
    then show "((WorkList', CapturedStmts @ [CS]), WorkList, CapturedStmts) \<in>
        measure (\<lambda>(WorkList, CapturedStmts). size_list (size_option size) WorkList)"
      using sz rest by simp
  }
  {
    fix S isParallel isSimd AssociatedStmt
    assume "CurStmt = Some S" "S = OMPExecutableDirective isParallel isSimd AssociatedStmt"
      "\<not> (isParallel \<or> isSimd)" "AssociatedStmt = None"
    then show "((WorkList', CapturedStmts), WorkList, CapturedStmts) \<in>
        measure (\<lambda>(WorkList, CapturedStmts). size_list (size_option size) WorkList)"
      using sz rest by simp
  }
  {
    fix S isParallel isSimd AssociatedStmt CS
    assume "CurStmt = Some S" "S = OMPExecutableDirective isParallel isSimd AssociatedStmt"
      "\<not> (isParallel \<or> isSimd)" "AssociatedStmt = Some CS"
    then show "((WorkList' @ [Some (getCapturedStmt CS)], CapturedStmts), WorkList,
        CapturedStmts) \<in>
        measure (\<lambda>(WorkList, CapturedStmts). size_list (size_option size) WorkList)"
      using sz rest cur body [of CS] by simp
  }
  {
    fix S children
    assume "CurStmt = Some S" "S = OtherStmt children"
    then show "((WorkList' @ children, CapturedStmts), WorkList, CapturedStmts) \<in>
        measure (\<lambda>(WorkList, CapturedStmts). size_list (size_option size) WorkList)"
      using sz rest cur by simp
  }
qed simp


datatype Decl = CapturedDecl string "Stmt option" | FunctionDecl string "Stmt option"

datatype DataSharingType = DST_Val | DST_Ref | DST_Cast

record DataSharingInfo =
  CapturesValues :: "(VarDecl option \<times> DataSharingType) list"
  MasterRecordType :: "QualType list"
  WorkerWarpRecordType :: "QualType list"

record SharingState =
  AlreadySharedDecls :: "VarDecl option set"
  InfoCapturesValues :: "(VarDecl option \<times> DataSharingType) list"
  SharedMasterRD :: "QualType list"
  SharedWarpRD :: "QualType list"

definition emptySharingState :: SharingState where
  "emptySharingState =
     \<lparr>AlreadySharedDecls = {}, InfoCapturesValues = [], SharedMasterRD = [],
      SharedWarpRD = []\<rparr>"

definition assert_that :: "bool \<Rightarrow> string \<Rightarrow> abort + 'a \<Rightarrow> abort + 'a" where
  "assert_that c msg k = (if c then k else Inl (AssertionFailed msg))"

definition string_literal_as_condition :: "string \<Rightarrow> bool" where
  "string_literal_as_condition msg = True"

fun isa_Instruction :: "Value \<Rightarrow> bool" where
  "isa_Instruction (getInt32 c) = False"
| "isa_Instruction (getInt8 c) = False"
| "isa_Instruction (getNullValue T) = False"
| "isa_Instruction (ConstantInt T c) = False"
| "isa_Instruction (GlobalVariable g) = False"
| "isa_Instruction (Function f) = False"
| "isa_Instruction (Argument n) = False"
| "isa_Instruction v = True"

fun isa_LoadInst :: "Value \<Rightarrow> bool" where
  "isa_LoadInst (CreateLoad a) = True"
| "isa_LoadInst v = False"

fun isa_BitCastInst :: "Value \<Rightarrow> bool" where
  "isa_BitCastInst (CreateBitOrPointerCast a) = True"
| "isa_BitCastInst v = False"

definition hasCapturedVLAType :: "Capture \<Rightarrow> bool" where
  "hasCapturedVLAType Cap = (CaptureKind Cap = VCK_VLAType)"

definition capturesThis :: "Capture \<Rightarrow> bool" where
  "capturesThis Cap = (CaptureKind Cap = VCK_This)"

definition capturesVariableByCopy :: "Capture \<Rightarrow> bool" where
  "capturesVariableByCopy Cap = (CaptureKind Cap = VCK_ByCopy)"

definition capturesVariableArrayType :: "Capture \<Rightarrow> bool" where
  "capturesVariableArrayType Cap = (CaptureKind Cap = VCK_VLAType)"

definition addShared ::
  "VarDecl option \<Rightarrow> DataSharingType \<Rightarrow> Capture \<Rightarrow> SharingState \<Rightarrow> SharingState" where
  "addShared CurVD DST Cap St =
     (if CurVD \<in> AlreadySharedDecls St then St
      else
        (let ElemTy = (if DST = DST_Ref then PointerType (InitType Cap) else InitType Cap);
             QTy = ConstantArrayType ElemTy DS_Max_Worker_Warp_Size
         in St\<lparr>AlreadySharedDecls := insert CurVD (AlreadySharedDecls St),
               InfoCapturesValues := InfoCapturesValues St @ [(CurVD, DST)],
               SharedMasterRD := SharedMasterRD St @ [ElemTy],
               SharedWarpRD := SharedWarpRD St @ [QTy]\<rparr>))"

definition shareCapture ::
  "(VarDecl \<Rightarrow> Value option) \<Rightarrow> Capture \<Rightarrow> SharingState \<Rightarrow> abort + SharingState" where
  "shareCapture LocalDeclMap Cap St =
     (if hasCapturedVLAType Cap then
        assert_that
          (string_literal_as_condition
             ''VLAs are not yet supported in NVPTX target data sharing!'')
          ''VLAs are not yet supported in NVPTX target data sharing!'' (Inr St)
      else if capturesThis Cap then Inr (addShared None DST_Val Cap St)
      else if capturesVariableByCopy Cap then
        assert_that
          (string_literal_as_condition
             ''Not expecting to capture variables by copy in NVPTX target data sharing!'')
          ''Not expecting to capture variables by copy in NVPTX target data sharing!''
          (Inr St)
      else
        assert_that (hasLocalStorage Cap)
          ''Expecting to capture only variables with local storage.''
          (case LocalDeclMap (CapturedVar Cap) of
             None \<Rightarrow> Inl (AssertionFailed ''Invalid argument to GetAddrOfLocalVar(), no decl!'')
           | Some Val \<Rightarrow>
               if \<not> isa_Instruction Val then Inl (CastFailed ''Instruction'')
               else
                 Inr (addShared (Some (CapturedVar Cap))
                        (if isa_LoadInst Val then DST_Ref
                         else if isa_BitCastInst Val then DST_Cast else DST_Val)
                        Cap St)))"

fun shareCaptures ::
  "(VarDecl \<Rightarrow> Value option) \<Rightarrow> Capture list \<Rightarrow> SharingState \<Rightarrow> abort + SharingState" where
  "shareCaptures LocalDeclMap [] St = Inr St"
| "shareCaptures LocalDeclMap (Cap # Caps) St =
     (case shareCapture LocalDeclMap Cap St of
        Inl e \<Rightarrow> Inl e
      | Inr St' \<Rightarrow> shareCaptures LocalDeclMap Caps St')"

fun shareCapturedStmts ::
  "(VarDecl \<Rightarrow> Value option) \<Rightarrow> CapturedStmt list \<Rightarrow> SharingState \<Rightarrow> abort + SharingState"
  where
  "shareCapturedStmts LocalDeclMap [] St = Inr St"
| "shareCapturedStmts LocalDeclMap (CS # CSs) St =
     (case shareCaptures LocalDeclMap (captures CS) St of
        Inl e \<Rightarrow> Inl e
      | Inr St' \<Rightarrow> shareCapturedStmts LocalDeclMap CSs St')"

definition getBody :: "Decl \<Rightarrow> abort + Stmt option" where
  "getBody Context =
     (case Context of
        CapturedDecl n Body \<Rightarrow> Inr Body
      | FunctionDecl n Body \<Rightarrow> Inl (CastFailed ''FunctionDecl''))"

definition createDataSharingInfo ::
  "(VarDecl \<Rightarrow> Value option) \<Rightarrow> Decl \<Rightarrow> abort + DataSharingInfo" where
  "createDataSharingInfo LocalDeclMap Context =
     (case getBody Context of
        Inl e \<Rightarrow> Inl e
      | Inr Body \<Rightarrow>
          (case collectCapturedStmts [Body] [] of
             Inl e \<Rightarrow> Inl e
           | Inr CapturedStmts \<Rightarrow>
               assert_that (CapturedStmts \<noteq> []) ''Expecting at least one parallel region!''
                 (case shareCapturedStmts LocalDeclMap CapturedStmts emptySharingState of
                    Inl e \<Rightarrow> Inl e
                  | Inr St \<Rightarrow>
                      Inr \<lparr>CapturesValues = InfoCapturesValues St,
                           MasterRecordType = SharedMasterRD St,
                           WorkerWarpRecordType = SharedWarpRD St\<rparr>)))"


subsection \<open>Capture descriptors, in the words of the specification\<close>

text \<open>
  The specification speaks of the identity of a capture (a variable, or \<open>this\<close>), of its
  sharing mode and of the field it gets in the layouts. These definitions say what each
  capture would contribute on its own; the theorems below compare them with what the loop
  of \<^verbatim>\<open>createDataSharingInfo\<close> records. A capture is planned when it is neither a VLA type
  capture nor a by-copy capture. \<open>None\<close> is the identity of \<open>this\<close>, as the null \<^verbatim>\<open>VarDecl\<close>
  is in the source.
\<close>

definition isPlanned :: "Capture \<Rightarrow> bool" where
  "isPlanned Cap = (CaptureKind Cap = VCK_This \<or> CaptureKind Cap = VCK_ByRef)"

definition CapturedIdentity :: "Capture \<Rightarrow> VarDecl option" where
  "CapturedIdentity Cap = (if CaptureKind Cap = VCK_This then None else Some (CapturedVar Cap))"

definition SharingModeOf :: "(VarDecl \<Rightarrow> Value option) \<Rightarrow> Capture \<Rightarrow> DataSharingType" where
  "SharingModeOf LocalDeclMap Cap =
     (if CaptureKind Cap = VCK_This then DST_Val
      else
        (case LocalDeclMap (CapturedVar Cap) of
           None \<Rightarrow> DST_Val
         | Some Val \<Rightarrow>
             if isa_LoadInst Val then DST_Ref
             else if isa_BitCastInst Val then DST_Cast else DST_Val))"

definition MasterFieldOf :: "(VarDecl \<Rightarrow> Value option) \<Rightarrow> Capture \<Rightarrow> QualType" where
  "MasterFieldOf LocalDeclMap Cap =
     (if SharingModeOf LocalDeclMap Cap = DST_Ref then PointerType (InitType Cap)
      else InitType Cap)"

definition hasSharableAddress :: "(VarDecl \<Rightarrow> Value option) \<Rightarrow> Capture \<Rightarrow> bool" where
  "hasSharableAddress LocalDeclMap Cap =
     (CaptureKind Cap = VCK_ByRef \<longrightarrow>
        hasLocalStorage Cap \<and>
        (case LocalDeclMap (CapturedVar Cap) of None \<Rightarrow> False | Some Val \<Rightarrow> isa_Instruction Val))"

definition allCaptures :: "CapturedStmt list \<Rightarrow> Capture list" where
  "allCaptures CapturedStmts = concat (map captures CapturedStmts)"

definition descriptors ::
  "(VarDecl \<Rightarrow> Value option) \<Rightarrow> Capture list \<Rightarrow>
   (VarDecl option \<times> DataSharingType \<times> QualType) list" where
  "descriptors LocalDeclMap Caps =
     map (\<lambda>Cap. (CapturedIdentity Cap, SharingModeOf LocalDeclMap Cap,
                 MasterFieldOf LocalDeclMap Cap))
       (filter isPlanned Caps)"

text \<open>
  Deduplication by identity: of the descriptors of one context, in the order in which the
  regions and their captures are visited, the first one of each identity is kept.
\<close>

fun firstDescriptors :: "'a set \<Rightarrow> ('a \<times> 'b) list \<Rightarrow> ('a \<times> 'b) list" where
  "firstDescriptors seen [] = []"
| "firstDescriptors seen ((v, x) # ds) =
     (if v \<in> seen then firstDescriptors seen ds
      else (v, x) # firstDescriptors (insert v seen) ds)"

text \<open>
  The loop of \<^verbatim>\<open>createDataSharingInfo\<close> refines this: run over the captures \<open>Caps\<close> from the
  state \<open>St\<close>, it appends the first descriptors of the identities it has not shared yet.
\<close>

definition refines ::
  "(VarDecl \<Rightarrow> Value option) \<Rightarrow> Capture list \<Rightarrow> SharingState \<Rightarrow> SharingState \<Rightarrow> bool"
  where
  "refines LocalDeclMap Caps St St' =
     (let new = firstDescriptors (AlreadySharedDecls St) (descriptors LocalDeclMap Caps)
      in InfoCapturesValues St' = InfoCapturesValues St @ map (\<lambda>(v, d, t). (v, d)) new \<and>
         SharedMasterRD St' = SharedMasterRD St @ map (\<lambda>(v, d, t). t) new \<and>
         SharedWarpRD St' =
           SharedWarpRD St @ map (\<lambda>(v, d, t). ConstantArrayType t DS_Max_Worker_Warp_Size) new \<and>
         AlreadySharedDecls St' =
           AlreadySharedDecls St \<union> fst ` set (descriptors LocalDeclMap Caps))"

subsection \<open>Barriers, warp queries and the data sharing slots\<close>

text \<open>
  The barrier and the queries about the active lanes of a warp, emitted at the insertion
  point. \<^verbatim>\<open>initializeDataSharing\<close> emits the call that initializes the slot of the master
  or, for a worker, of its warp; among the workers only the first active lane of a warp
  makes the call.
\<close>

definition getNVPTXCTABarrier :: RegionCodeGenTy where
  "getNVPTXCTABarrier CGF = snd (CreateCall nvvm_barrier0 [] CGF)"

definition syncCTAThreads :: RegionCodeGenTy where
  "syncCTAThreads CGF = getNVPTXCTABarrier CGF"

definition EmitRuntimeCall ::
  "OpenMPRTLFunctionNVPTX \<Rightarrow> Value list \<Rightarrow> CodeGenFunction \<Rightarrow> Value \<times> CodeGenFunction" where
  "EmitRuntimeCall F Args CGF = CreateCall (RuntimeFunction F) Args CGF"

definition getNVPTXWarpActiveThreadsMask :: "CodeGenFunction \<Rightarrow> Value \<times> CodeGenFunction" where
  "getNVPTXWarpActiveThreadsMask CGF =
     EmitRuntimeCall OMPRTL_NVPTX__kmpc_warp_active_thread_mask [] CGF"

definition getNVPTXWarpActiveNumThreads :: "CodeGenFunction \<Rightarrow> Value \<times> CodeGenFunction" where
  "getNVPTXWarpActiveNumThreads CGF =
     (let (Mask, CGF) = getNVPTXWarpActiveThreadsMask CGF in (nvvm_popc_i Mask, CGF))"

definition getNVPTXWarpActiveThreadID :: "CodeGenFunction \<Rightarrow> Value \<times> CodeGenFunction" where
  "getNVPTXWarpActiveThreadID CGF =
     (let WarpID = getNVPTXThreadWarpID;
          (Mask, CGF) = getNVPTXWarpActiveThreadsMask CGF;
          ShNum = CreateSub (getInt32 32) WarpID;
          Sh = CreateShl Mask ShNum
      in (nvvm_popc_i Sh, CGF))"

definition getNVPTXIsWarpActiveMaster :: "CodeGenFunction \<Rightarrow> Value \<times> CodeGenFunction" where
  "getNVPTXIsWarpActiveMaster CGF =
     (let (ID, CGF) = getNVPTXWarpActiveThreadID CGF in (CreateICmpEQ ID (getInt32 0), CGF))"

definition getDataSharingRootSlotLValue :: "bool \<Rightarrow> Value" where
  "getDataSharingRootSlotLValue IsMaster =
     (let Gbl = GlobalVariable ''__openmp_nvptx_shared_data_slots''
      in if IsMaster
         then CreateInBoundsGEP Gbl
                [getNullValue Int32Ty, getNVPTXBlockID, getNullValue Int32Ty]
         else CreateInBoundsGEP Gbl
                [getNullValue Int32Ty, getNVPTXBlockID, getInt32 1, getNVPTXWarpID])"

definition initializeDataSharing :: "bool \<Rightarrow> CodeGenFunction \<Rightarrow> CodeGenFunction" where
  "initializeDataSharing IsMaster CGF =
     (let (EndBB, CGF) = createBasicBlock ''after_shared_data_init'' CGF;
          CGF =
            (if \<not> IsMaster then
               (let (IsWarpMaster, CGF) = getNVPTXIsWarpActiveMaster CGF;
                    (InitBB, CGF) = createBasicBlock ''shared_data_init'' CGF;
                    CGF = CreateCondBr IsWarpMaster InitBB EndBB CGF
                in EmitBlock InitBB CGF)
             else CGF);
          SlotLV = getDataSharingRootSlotLValue IsMaster;
          CastedSlot = CreateBitOrPointerCast SlotLV;
          Args = [CastedSlot,
                  ConstantInt Int64Ty
                    (int (if IsMaster then DS_Slot_Size else DS_Worker_Warp_Slot_Size))];
          (Call, CGF) =
            CreateCall
              (RuntimeFunction OMPRTL_NVPTX__kmpc_initialize_data_sharing_environment) Args CGF
      in EmitBlock EndBB CGF)"

subsection \<open>Kernel entry\<close>

text \<open>
  \<^verbatim>\<open>createKernelInitializerFunction\<close> emits the function \<^verbatim>\<open>__omp_kernel_initialization\<close>,
  which sends a lane into the worker function, or initializes the master, and returns 0
  to the master and 1 to every other lane. \<^verbatim>\<open>emitEntryHeader\<close> and \<^verbatim>\<open>emitEntryFooter\<close> are
  the actions \<^verbatim>\<open>emitTargetOutlinedFunction\<close> hands to the generic outlining of the target
  region, which runs the header before the code of the region and the footer after it
  (\<open>emitTargetEntryFunction\<close>). \<^verbatim>\<open>InitializeEntryPoint\<close> is the lambda of
  \<^verbatim>\<open>emitRegistrationFunction\<close> that, at the end of the module, puts the call of the
  initialization function in front of the entry function: the block is split at the
  insertion position, the first half ends with the call and a branch on its result, and
  the second half becomes the block \<^verbatim>\<open>.master\<close>. \<open>kernelEntry\<close> is the path of an entry
  function for which \<^verbatim>\<open>emitRegistrationFunction\<close> finds \<open>NothingToShare\<close>: the position is
  the first instruction of the entry block (stack slots are not instructions of the
  model). \<open>kernel_outcome\<close> is what a lane does
  in the kernel whose target region is a single call of \<open>''sequential_body''\<close>; the worker
  function has the name of the entry function followed by \<^verbatim>\<open>_worker\<close>.
\<close>

definition ReturnValueAddr :: "CodeGenFunction \<Rightarrow> Value" where
  "ReturnValueAddr CGF = (case ReturnValue CGF of Some RV \<Rightarrow> RV | None \<Rightarrow> getNullValue PointerTy)"

definition createKernelInitializerFunction :: "string \<Rightarrow> CodeGenFunction" where
  "createKernelInitializerFunction WorkerFunction =
     (let CGF = StartFunction ''__omp_kernel_initialization'' True 0;
          (WorkerBB, CGF) = createBasicBlock ''.worker'' CGF;
          (MasterCheckBB, CGF) = createBasicBlock ''.ismaster'' CGF;
          (MasterBB, CGF) = createBasicBlock ''.master'' CGF;
          (ExitBB, CGF) = createBasicBlock ''.exit'' CGF;
          One = ConstantInt Int32Ty 1;
          Zero = ConstantInt Int32Ty 0;
          CGF = CreateStore One (ReturnValueAddr CGF) CGF;
          IsWorker = CreateICmpULT getNVPTXThreadID getThreadLimit;
          CGF = CreateCondBr IsWorker WorkerBB MasterCheckBB CGF;
          CGF = EmitBlock WorkerBB CGF;
          CGF = initializeDataSharing False CGF;
          (Call, CGF) = CreateCall (Direct WorkerFunction) [] CGF;
          CGF = EmitBranch ExitBB CGF;
          CGF = EmitBlock MasterCheckBB CGF;
          IsMaster = CreateICmpEQ getNVPTXThreadID getMasterThreadID;
          CGF = CreateCondBr IsMaster MasterBB ExitBB CGF;
          CGF = EmitBlock MasterBB CGF;
          CGF = initializeDataSharing True CGF;
          CGF = CreateStore Zero (ReturnValueAddr CGF) CGF;
          CGF = EmitBranch ExitBB CGF;
          CGF = EmitBlock ExitBB CGF
      in FinishFunction CGF)"

record DataSharingFunctionInfo =
  IsEntryPoint :: bool
  EntryWorkerFunction :: "string option"
  EntryExitBlock :: "nat option"
  InitializationFunction :: "string option"
  ValuesToBeReplaced :: "Value list"

definition emptyDataSharingFunctionInfo :: DataSharingFunctionInfo where
  "emptyDataSharingFunctionInfo =
     \<lparr>IsEntryPoint = False, EntryWorkerFunction = None, EntryExitBlock = None,
      InitializationFunction = None, ValuesToBeReplaced = []\<rparr>"

definition emitEntryHeader ::
  "string \<Rightarrow> DataSharingFunctionInfo \<Rightarrow> CodeGenFunction \<Rightarrow>
   nat \<times> DataSharingFunctionInfo \<times> CodeGenFunction" where
  "emitEntryHeader WorkerFn DSI CGF =
     (let (ExitBB, CGF) = createBasicBlock ''.sleepy.hollow'' CGF;
          DSI = DSI\<lparr>IsEntryPoint := True, EntryWorkerFunction := Some WorkerFn,
                    EntryExitBlock := Some ExitBB\<rparr>;
          Args = [getInt32 0, getThreadLimit];
          (Call, CGF) = EmitRuntimeCall OMPRTL_NVPTX__kmpc_kernel_init Args CGF
      in (ExitBB, DSI, CGF))"

definition emitEntryFooter :: "nat \<Rightarrow> CodeGenFunction \<Rightarrow> CodeGenFunction" where
  "emitEntryFooter ExitBB CGF =
     (let (TerminateBB, CGF) = createBasicBlock ''.termination.notifier'' CGF;
          CGF = EmitBranch TerminateBB CGF;
          CGF = EmitBlock TerminateBB CGF;
          (Call, CGF) = EmitRuntimeCall OMPRTL_NVPTX__kmpc_kernel_deinit [] CGF;
          CGF = syncCTAThreads CGF;
          CGF = EmitBranch ExitBB CGF
      in EmitBlock ExitBB CGF)"

definition emitTargetEntryFunction ::
  "string \<Rightarrow> string \<Rightarrow> RegionCodeGenTy \<Rightarrow> DataSharingFunctionInfo \<times> CodeGenFunction" where
  "emitTargetEntryFunction OutlinedFn WorkerFn CodeGen =
     (let CGF = StartFunction OutlinedFn False 0;
          (ExitBB, DSI, CGF) = emitEntryHeader WorkerFn emptyDataSharingFunctionInfo CGF;
          CGF = CodeGen CGF;
          CGF = emitEntryFooter ExitBB CGF
      in (DSI, FinishFunction CGF))"

definition InitializeEntryPoint ::
  "DataSharingFunctionInfo \<Rightarrow> nat \<times> nat \<Rightarrow> CodeGenFunction \<Rightarrow>
   abort + ((nat \<times> nat) \<times> CodeGenFunction \<times> CodeGenFunction)" where
  "InitializeEntryPoint DSI InsertPtr Fn =
     (case EntryWorkerFunction DSI of
        None \<Rightarrow>
          Inl (AssertionFailed ''All entry function are expected to have an worker function.'')
      | Some WorkerFunction \<Rightarrow>
          (case EntryExitBlock DSI of
             None \<Rightarrow>
               Inl (AssertionFailed
                      ''All entry function are expected to have an exit basic block.'')
           | Some ExitBlock \<Rightarrow>
               (let InitFn = createKernelInitializerFunction WorkerFunction;
                    (CurrentBB, Pos) = InsertPtr;
                    ShouldReturnImmediatelly = CallValue (NumValues Fn);
                    Call = CallInst (NumValues Fn) (Direct (CurFn InitFn)) [];
                    Cond = CreateICmpEQ ShouldReturnImmediatelly (getNullValue Int32Ty);
                    Old = Blocks Fn ! CurrentBB;
                    MasterBB = length (Blocks Fn);
                    Fn = Fn\<lparr>NumValues := Suc (NumValues Fn),
                            Blocks :=
                              (Blocks Fn)
                                [CurrentBB :=
                                   Old\<lparr>Insts := take Pos (Insts Old) @ [Call],
                                       BBTerm := Some (CondBr Cond MasterBB ExitBlock)\<rparr>]
                              @ [\<lparr>BBName = ''.master'', Insts = drop Pos (Insts Old),
                                  BBTerm = BBTerm Old\<rparr>]\<rparr>
                in Inr ((MasterBB, 0), Fn, InitFn))))"

definition NothingToShare :: "DataSharingFunctionInfo \<Rightarrow> bool" where
  "NothingToShare DSI = (InitializationFunction DSI = None \<and> IsEntryPoint DSI)"

definition kernelEntry ::
  "string \<Rightarrow> string \<Rightarrow> RegionCodeGenTy \<Rightarrow>
   abort + ((nat \<times> nat) \<times> CodeGenFunction \<times> CodeGenFunction)" where
  "kernelEntry OutlinedFn WorkerFn CodeGen =
     (let (DSI, Fn) = emitTargetEntryFunction OutlinedFn WorkerFn CodeGen
      in InitializeEntryPoint DSI (0, 0) Fn)"

definition kernel_outcome :: "nat \<Rightarrow> lane \<Rightarrow> abort + outcome" where
  "kernel_outcome n s =
     (case kernelEntry ''kernel'' ''kernel_worker'' (EmitRegion ''sequential_body'') of
        Inl e \<Rightarrow> Inl e
      | Inr (InsertPtr, Fn, InitFn) \<Rightarrow>
          Inr (outcome (run [CurFn InitFn \<mapsto> InitFn] n Fn 0 s)))"

subsection \<open>Example contexts\<close>

text \<open>
  \<open>exampleLocalDeclMap\<close>: \<open>x\<close> and \<open>n\<close> live in stack slots of the enclosing function \<open>F\<close>, the
  address of \<open>y\<close> is loaded from a slot that holds a reference, and \<open>z\<close> is seen through a
  cast. \<open>exampleContextF\<close> is the example of the specification: one parallel region that
  captures \<open>x\<close> and \<open>y\<close>. \<open>exampleTwoRegions\<close> has a parallel region and, nested in a
  \<^verbatim>\<open>for\<close> directive, a simd region; both capture \<open>x\<close>, and \<open>this\<close> and \<open>z\<close> are captured
  once. \<open>exampleUnsupported\<close> has one parallel region that captures a VLA type, the
  variable \<open>n\<close> by copy and \<open>x\<close> by reference.
\<close>

definition exampleLocalDeclMap :: "VarDecl \<Rightarrow> Value option" where
  "exampleLocalDeclMap =
     [''x'' \<mapsto> AllocaInst ''F'' 0 ''x'',
      ''y'' \<mapsto> CreateLoad (AllocaInst ''F'' 1 ''y.addr''),
      ''z'' \<mapsto> CreateBitOrPointerCast (AllocaInst ''F'' 2 ''z''),
      ''n'' \<mapsto> AllocaInst ''F'' 3 ''n'']"

definition byRef :: "VarDecl \<Rightarrow> QualType \<Rightarrow> Capture" where
  "byRef v T =
     \<lparr>CaptureKind = VCK_ByRef, CapturedVar = v, hasLocalStorage = True, InitType = T\<rparr>"

definition exampleContextF :: Decl where
  "exampleContextF =
     CapturedDecl ''F''
       (Some (OtherStmt
          [Some (OMPExecutableDirective True False
             (Some (CapturedStmt
                [byRef ''x'' (BuiltinType ''int''), byRef ''y'' (BuiltinType ''int'')]
                (OtherStmt []))))]))"

definition exampleTwoRegions :: Decl where
  "exampleTwoRegions =
     CapturedDecl ''F''
       (Some (OtherStmt
          [Some (OMPExecutableDirective True False
             (Some (CapturedStmt
                [byRef ''x'' (BuiltinType ''int''),
                 \<lparr>CaptureKind = VCK_This, CapturedVar = [], hasLocalStorage = False,
                  InitType = PointerType (RecordType ''S'')\<rparr>]
                (OtherStmt [])))),
           None,
           Some (OMPExecutableDirective False False
             (Some (CapturedStmt []
                (OtherStmt
                   [Some (OMPExecutableDirective False True
                      (Some (CapturedStmt
                         [byRef ''z'' (BuiltinType ''double''),
                          byRef ''x'' (BuiltinType ''int'')]
                         (OtherStmt []))))]))))]))"


text \<open>
  The same two bodies as the bodies of a function: the context of a parallel region that
  stands in a function and not in a target region.
\<close>

definition exampleFunctionF :: Decl where
  "exampleFunctionF =
     FunctionDecl ''F''
       (Some (OtherStmt
          [Some (OMPExecutableDirective True False
             (Some (CapturedStmt
                [byRef ''x'' (BuiltinType ''int''), byRef ''y'' (BuiltinType ''int'')]
                (OtherStmt []))))]))"

definition exampleFunctionTwoRegions :: Decl where
  "exampleFunctionTwoRegions =
     FunctionDecl ''F''
       (Some (OtherStmt
          [Some (OMPExecutableDirective True False
             (Some (CapturedStmt
                [byRef ''x'' (BuiltinType ''int''),
                 \<lparr>CaptureKind = VCK_This, CapturedVar = [], hasLocalStorage = False,
                  InitType = PointerType (RecordType ''S'')\<rparr>]
                (OtherStmt [])))),
           None,
           Some (OMPExecutableDirective False False
             (Some (CapturedStmt []
                (OtherStmt
                   [Some (OMPExecutableDirective False True
                      (Some (CapturedStmt
                         [byRef ''z'' (BuiltinType ''double''),
                          byRef ''x'' (BuiltinType ''int'')]
                         (OtherStmt []))))]))))]))"

subsection \<open>Example region bodies\<close>

text \<open>
  A region body with an exit in the middle, in the shape clang gives a \<^verbatim>\<open>cancel\<close>
  construct (\<^verbatim>\<open>emitParallelOrTeamsOutlinedFunction\<close> hands \<^verbatim>\<open>HasCancel\<close> to the region info):
  a flag is tested; when it is set the lane leaves the outlined function from the block
  \<^verbatim>\<open>.cancel.exit\<close>, otherwise the body goes on in \<^verbatim>\<open>.cancel.continue\<close> and calls
  \<open>''rest''\<close>. The model reads the flag from the global \<open>''cancelled''\<close>; \<open>cancelled c s\<close> is
  the lane \<open>s\<close> with the flag set to \<open>c\<close>. \<open>outlinedRegion\<close> is an outlined function whose
  whole code is one region.
\<close>

definition exampleCancelBody :: RegionCodeGenTy where
  "exampleCancelBody CGF =
     (let (ExitBB, CGF) = createBasicBlock ''.cancel.exit'' CGF;
          (ContBB, CGF) = createBasicBlock ''.cancel.continue'' CGF;
          Cmp = CreateICmpNE (CreateLoad (GlobalVariable ''cancelled'')) (getInt32 0);
          CGF = CreateCondBr Cmp ExitBB ContBB CGF;
          CGF = EmitBlock ExitBB CGF;
          CGF = Terminate (Ret None) CGF;
          CGF = EmitBlock ContBB CGF
      in EmitRegion ''rest'' CGF)"

definition cancelled :: "bool \<Rightarrow> lane \<Rightarrow> lane" where
  "cancelled c s = s\<lparr>mem := (mem s)(PGlobal ''cancelled'' := DInt (if c then 1 else 0))\<rparr>"

definition outlinedRegion :: "bool \<Rightarrow> RegionCodeGenTy \<Rightarrow> CodeGenFunction" where
  "outlinedRegion IsSimd CodeGen =
     FinishFunction
       (CodeGenWithDataSharing IsSimd CodeGen (StartFunction ''omp_outlined'' False 0))"

section \<open>Properties\<close>

subsection \<open>Word arithmetic\<close>

lemma and_not_mask_push: "(x::i32) AND NOT (mask k) = push_bit k (drop_bit k x)"
  by (rule bit_word_eqI) (auto simp add: bit_simps)

lemma unat_and_not_mask: "unat ((x::i32) AND NOT (mask k)) = unat x div 2 ^ k * 2 ^ k"
proof -
  have lt: "unat x < 2 ^ 32"
    using unsigned_less [of x] by simp
  have tb: "take_bit 32 (unat x) = unat x"
    by (rule take_bit_nat_eq_self) (rule lt)
  have "unat (push_bit k (drop_bit k x)) = take_bit 32 (push_bit k (drop_bit k (unat x)))"
    by (simp add: unsigned_push_bit_eq unsigned_drop_bit_eq tb)
  also have "push_bit k (drop_bit k (unat x)) = unat x div 2 ^ k * 2 ^ k"
    by (simp add: push_bit_eq_mult drop_bit_eq_div)
  also have "take_bit 32 (unat x div 2 ^ k * 2 ^ k) = unat x div 2 ^ k * 2 ^ k"
  proof (rule take_bit_nat_eq_self)
    have "unat x div 2 ^ k * 2 ^ k \<le> unat x" by simp
    also note lt
    finally show "unat x div 2 ^ k * 2 ^ k < 2 ^ 32" .
  qed
  finally show ?thesis by (simp add: and_not_mask_push)
qed

lemma unat_pow2: "k < 32 \<Longrightarrow> unat (2 ^ k :: i32) = 2 ^ k"
proof -
  assume k: "k < 32"
  have lt: "(2::nat) ^ k < 2 ^ 32"
    using k by (rule_tac power_strict_increasing) simp_all
  have "(2 ^ k :: i32) = of_nat (2 ^ k)" by simp
  then have "unat (2 ^ k :: i32) = 2 ^ k mod 2 ^ 32"
    by (simp only: unat_of_nat) simp
  then show ?thesis using lt by simp
qed

lemma unat_and_le: "unat ((x::i32) AND y) \<le> unat y"
  by (metis word_less_eq_iff_unsigned word_and_le1)

lemma unat_and_pred_less: "(m::i32) \<noteq> 0 \<Longrightarrow> unat (t AND (m - 1)) < unat m"
proof -
  assume m: "m \<noteq> 0"
  have "unat (t AND (m - 1)) \<le> unat (m - 1)" by (rule unat_and_le)
  also have "unat (m - 1) = unat m - 1" using m by (simp add: unat_minus_one)
  also have "\<dots> < unat m" using m by (simp add: unat_gt_0)
  finally show ?thesis .
qed

lemma first_lane_of_last_group:
  assumes "W = (2 ^ k :: i32)" and "k < 32" and "N \<noteq> 0"
  shows "unat ((N - 1) AND NOT (W - 1)) = (unat N - 1) div unat W * unat W"
proof -
  have m: "W - 1 = mask k" using assms(1) by (simp add: mask_eq_exp_minus_1)
  have W: "unat W = 2 ^ k" unfolding assms(1) using assms(2) by (rule unat_pow2)
  have N: "unat (N - 1) = unat N - 1" using assms(3) by (simp add: unat_minus_one)
  have "unat ((N - 1) AND NOT (W - 1)) = unat (N - 1) div 2 ^ k * 2 ^ k"
    unfolding m by (rule unat_and_not_mask)
  then show ?thesis unfolding W N .
qed

lemma one_le_word_iff: "(1 :: i32) \<le> x \<longleftrightarrow> x \<noteq> 0"
  using word_le_sub1 by auto

lemma master_nonzero:
  assumes "W = (2 ^ k :: i32)" and "k < 32" and "W < N"
  shows "(N - 1) AND NOT (W - 1) \<noteq> 0"
proof -
  have W: "unat W = 2 ^ k" unfolding assms(1) using assms(2) by (rule unat_pow2)
  have lt: "unat W < unat N" using assms(3) by (simp add: word_less_nat_alt)
  then have "N \<noteq> 0" by auto
  with assms(1,2)
  have eq: "unat ((N - 1) AND NOT (W - 1)) = (unat N - 1) div unat W * unat W"
    by (rule first_lane_of_last_group)
  have "unat W \<le> unat N - 1" using lt by simp
  moreover have "0 < unat W" unfolding W by simp
  ultimately have "0 < (unat N - 1) div unat W"
    by (simp add: div_greater_zero_iff)
  then have "0 < (unat N - 1) div unat W * unat W" using \<open>0 < unat W\<close> by simp
  then have "unat ((N - 1) AND NOT (W - 1)) \<noteq> 0" unfolding eq by simp
  then show ?thesis by auto
qed

subsection \<open>Master and team-relative thread ids\<close>

lemma eval_getMasterThreadID:
  "eval s getMasterThreadID =
     DInt ((nvptx_num_threads s - 1) AND NOT (nvptx_warp_size s - 1))"
  by (simp add: getMasterThreadID_def getNVPTXNumThreads_def getNVPTXWarpSize_def)

lemma eval_getTeamThreadId:
  "eval s getTeamThreadId =
     (let M = (nvptx_num_threads s - 1) AND NOT (nvptx_warp_size s - 1)
      in if M \<noteq> 0 then DInt (nvptx_tid s AND (M - 1)) else DPoison)"
  by (simp add: getTeamThreadId_def getNVPTXThreadID_def eval_getMasterThreadID Let_def
      one_le_word_iff)

text \<open>
  C3. In a block of \<open>N\<close> threads with warp size \<open>W\<close>, the value emitted by
  \<^verbatim>\<open>getMasterThreadID\<close> evaluates to \<open>(N - 1) AND NOT (W - 1)\<close>. When \<open>W\<close> is a power of two
  (and the block is not empty) this is the first lane of the warp that holds the last
  lane \<open>N - 1\<close>, and it is not 0 when the block has more threads than one warp. The value
  emitted by \<^verbatim>\<open>getTeamThreadId\<close> evaluates to \<open>tid AND (MasterThreadId - 1)\<close> whenever the
  master id is not 0 (the subtraction carries the \<^verbatim>\<open>nuw\<close> flag), and the result is below
  the master id: no lane is given an id inside the master warp.
\<close>

theorem master_and_team_thread_id:
  "let N = nvptx_num_threads s; W = nvptx_warp_size s; t = nvptx_tid s;
       M = (N - 1) AND NOT (W - 1)
   in eval s getMasterThreadID = DInt M \<and>
      (W = 2 ^ k \<and> k < 32 \<and> N \<noteq> 0 \<longrightarrow> unat M = (unat N - 1) div unat W * unat W) \<and>
      (W = 2 ^ k \<and> k < 32 \<and> W < N \<longrightarrow> M \<noteq> 0) \<and>
      (M \<noteq> 0 \<longrightarrow>
         eval s getTeamThreadId = DInt (t AND (M - 1)) \<and> unat (t AND (M - 1)) < unat M)"
proof -
  define M where "M = (nvptx_num_threads s - 1) AND NOT (nvptx_warp_size s - 1)"
  have 1: "eval s getMasterThreadID = DInt M"
    unfolding M_def by (rule eval_getMasterThreadID)
  have 2: "unat M = (unat (nvptx_num_threads s) - 1) div unat (nvptx_warp_size s) *
      unat (nvptx_warp_size s)"
    if "nvptx_warp_size s = 2 ^ k" and "k < 32" and "nvptx_num_threads s \<noteq> 0"
    unfolding M_def using that by (rule first_lane_of_last_group)
  have 3: "M \<noteq> 0"
    if "nvptx_warp_size s = 2 ^ k" and "k < 32" and "nvptx_warp_size s < nvptx_num_threads s"
    unfolding M_def using that by (rule master_nonzero)
  have 4: "eval s getTeamThreadId = DInt (nvptx_tid s AND (M - 1))" if "M \<noteq> 0"
    using that by (simp add: eval_getTeamThreadId M_def Let_def)
  have 5: "unat (nvptx_tid s AND (M - 1)) < unat M" if "M \<noteq> 0"
    using that by (rule unat_and_pred_less)
  show ?thesis
    unfolding Let_def M_def [symmetric] using 1 2 3 4 5 by blast
qed

theorem master_and_team_thread_id_witness:
  "(32 :: i32) = 2 ^ 5 \<and> (5 :: nat) < 32 \<and> (128 :: i32) \<noteq> 0 \<and> (32 :: i32) < 128 \<and>
   eval (kernel_start 70 128 32 0) getMasterThreadID = DInt 96 \<and>
   unat (96 :: i32) = (128 - 1) div 32 * 32 \<and>
   eval (kernel_start 70 128 32 0) getTeamThreadId = DInt 70 \<and>
   unat (70 :: i32) < unat (96 :: i32)"
  using master_and_team_thread_id [of "kernel_start 70 128 32 0" 5]
  by (simp add: kernel_start_def Let_def)

declare collectCapturedStmts.simps [simp del]

subsection \<open>The data sharing planner\<close>

lemma firstDescriptors_fst:
  "fst ` set (firstDescriptors seen ds) = fst ` set ds - seen"
proof (induction ds arbitrary: seen)
  case Nil
  then show ?case by simp
next
  case (Cons d ds)
  obtain w y where d: "d = (w, y)" by (cases d)
  show ?case
  proof (cases "w \<in> seen")
    case True
    then have "fst ` set (firstDescriptors seen (d # ds)) = fst ` set ds - seen"
      using d Cons.IH by simp
    also have "\<dots> = fst ` set (d # ds) - seen" using True d by auto
    finally show ?thesis .
  next
    case False
    then have "fst ` set (firstDescriptors seen (d # ds)) =
        insert w (fst ` set ds - insert w seen)"
      using d Cons.IH by simp
    also have "\<dots> = fst ` set (d # ds) - seen" using False d by auto
    finally show ?thesis .
  qed
qed

lemma firstDescriptors_distinct: "distinct (map fst (firstDescriptors seen ds))"
proof (induction ds arbitrary: seen)
  case Nil
  then show ?case by simp
next
  case (Cons d ds)
  obtain w y where d: "d = (w, y)" by (cases d)
  have "w \<notin> fst ` set (firstDescriptors (insert w seen) ds)"
    by (simp add: firstDescriptors_fst)
  then show ?case using Cons.IH d by simp
qed

lemma firstDescriptors_first:
  "(v, x) \<in> set (firstDescriptors seen ds) \<Longrightarrow> map_of ds v = Some x"
proof (induction ds arbitrary: seen)
  case Nil
  then show ?case by simp
next
  case (Cons d ds)
  obtain w y where d: "d = (w, y)" by (cases d)
  show ?case
  proof (cases "w \<in> seen")
    case True
    with Cons d have "(v, x) \<in> set (firstDescriptors seen ds)" by simp
    then have "map_of ds v = Some x" by (rule Cons.IH)
    moreover have "v \<noteq> w"
      using firstDescriptors_fst [of seen ds] \<open>(v, x) \<in> set (firstDescriptors seen ds)\<close> True
      by (force simp: image_iff)
    ultimately show ?thesis using d by simp
  next
    case False
    with Cons d have "(v, x) = (w, y) \<or> (v, x) \<in> set (firstDescriptors (insert w seen) ds)"
      by simp
    then show ?thesis
    proof
      assume "(v, x) = (w, y)"
      then show ?thesis using d by simp
    next
      assume in_rest: "(v, x) \<in> set (firstDescriptors (insert w seen) ds)"
      then have "map_of ds v = Some x" by (rule Cons.IH)
      moreover have "v \<noteq> w"
        using firstDescriptors_fst [of "insert w seen" ds] in_rest by force
      ultimately show ?thesis using d by simp
    qed
  qed
qed

lemma firstDescriptors_append:
  "firstDescriptors seen (ds @ es) =
     firstDescriptors seen ds @ firstDescriptors (seen \<union> fst ` set ds) es"
proof (induction ds arbitrary: seen)
  case Nil
  then show ?case by simp
next
  case (Cons d ds)
  obtain w y where d: "d = (w, y)" by (cases d)
  have "insert w seen \<union> fst ` set ds = seen \<union> fst ` set ((w, y) # ds)" by auto
  moreover have "w \<in> seen \<Longrightarrow> seen \<union> fst ` set ds = seen \<union> fst ` set ((w, y) # ds)" by auto
  ultimately show ?case using Cons.IH d by simp
qed

lemma shareCapture_unplanned:
  "\<not> isPlanned Cap \<Longrightarrow> shareCapture LocalDeclMap Cap St = Inr St"
  by (cases "CaptureKind Cap")
    (simp_all add: shareCapture_def isPlanned_def hasCapturedVLAType_def capturesThis_def
      capturesVariableByCopy_def assert_that_def string_literal_as_condition_def)

lemma shareCapture_planned:
  assumes "isPlanned Cap"
  shows "shareCapture LocalDeclMap Cap St =
     (if hasSharableAddress LocalDeclMap Cap
      then Inr (addShared (CapturedIdentity Cap) (SharingModeOf LocalDeclMap Cap) Cap St)
      else shareCapture LocalDeclMap Cap St)"
    and "\<not> hasSharableAddress LocalDeclMap Cap \<Longrightarrow> \<exists>e. shareCapture LocalDeclMap Cap St = Inl e"
  using assms
  by (cases "CaptureKind Cap"; 
    auto simp add: shareCapture_def isPlanned_def hasCapturedVLAType_def capturesThis_def
      capturesVariableByCopy_def assert_that_def CapturedIdentity_def SharingModeOf_def
      hasSharableAddress_def split: option.splits)+


lemma shareCapture_Inr:
  assumes "shareCapture LocalDeclMap Cap St = Inr St'"
  shows "St' = (if isPlanned Cap
               then addShared (CapturedIdentity Cap) (SharingModeOf LocalDeclMap Cap) Cap St
               else St)"
proof (cases "isPlanned Cap")
  case False
  then show ?thesis using assms by (simp add: shareCapture_unplanned)
next
  case True
  then have "hasSharableAddress LocalDeclMap Cap"
    using assms shareCapture_planned(2) [of Cap LocalDeclMap St] by auto
  then show ?thesis
    using True assms shareCapture_planned(1) [of Cap LocalDeclMap St] by simp
qed

lemma shareCapture_total:
  "hasSharableAddress LocalDeclMap Cap \<Longrightarrow> \<exists>St'. shareCapture LocalDeclMap Cap St = Inr St'"
  using shareCapture_planned(1) [of Cap LocalDeclMap St]
    shareCapture_unplanned [of Cap LocalDeclMap St]
  by (cases "isPlanned Cap") auto

lemma descriptors_Cons:
  "descriptors LocalDeclMap (Cap # Caps) =
     (if isPlanned Cap
      then (CapturedIdentity Cap, SharingModeOf LocalDeclMap Cap, MasterFieldOf LocalDeclMap Cap)
             # descriptors LocalDeclMap Caps
      else descriptors LocalDeclMap Caps)"
  by (simp add: descriptors_def)

lemma descriptors_append:
  "descriptors LocalDeclMap (Caps @ Caps') =
     descriptors LocalDeclMap Caps @ descriptors LocalDeclMap Caps'"
  by (simp add: descriptors_def)

lemma descriptors_fst:
  "fst ` set (descriptors LocalDeclMap Caps) = CapturedIdentity ` {Cap \<in> set Caps. isPlanned Cap}"
  by (auto simp: descriptors_def image_iff)

lemma refines_Nil: "refines LocalDeclMap [] St St"
  by (simp add: refines_def descriptors_def)

lemma refines_addShared:
  assumes "isPlanned Cap"
  shows "refines LocalDeclMap [Cap] St
     (addShared (CapturedIdentity Cap) (SharingModeOf LocalDeclMap Cap) Cap St)"
  using assms
  by (auto simp add: refines_def descriptors_Cons addShared_def Let_def MasterFieldOf_def
      descriptors_def)

lemma refines_skip: "\<not> isPlanned Cap \<Longrightarrow> refines LocalDeclMap [Cap] St St"
  by (simp add: refines_def descriptors_def)

lemma refines_trans:
  assumes "refines LocalDeclMap Caps St St1" and "refines LocalDeclMap Caps' St1 St2"
  shows "refines LocalDeclMap (Caps @ Caps') St St2"
  using assms
  by (simp add: refines_def Let_def descriptors_append firstDescriptors_append Un_assoc image_Un)

lemma shareCaptures_refines:
  "shareCaptures LocalDeclMap Caps St = Inr St' \<Longrightarrow> refines LocalDeclMap Caps St St'"
proof (induction Caps arbitrary: St)
  case Nil
  then show ?case by (simp add: refines_Nil)
next
  case (Cons Cap Caps)
  from Cons.prems obtain St1 where
    1: "shareCapture LocalDeclMap Cap St = Inr St1" and
    2: "shareCaptures LocalDeclMap Caps St1 = Inr St'"
    by (auto split: sum.splits)
  have "refines LocalDeclMap [Cap] St St1"
    using shareCapture_Inr [OF 1] refines_addShared refines_skip by (cases "isPlanned Cap") auto
  moreover have "refines LocalDeclMap Caps St1 St'" using 2 by (rule Cons.IH)
  ultimately have "refines LocalDeclMap ([Cap] @ Caps) St St'" by (rule refines_trans)
  then show ?case by simp
qed

lemma shareCapturedStmts_refines:
  "shareCapturedStmts LocalDeclMap CSs St = Inr St' \<Longrightarrow>
   refines LocalDeclMap (allCaptures CSs) St St'"
proof (induction CSs arbitrary: St)
  case Nil
  then show ?case by (simp add: refines_Nil allCaptures_def)
next
  case (Cons CS CSs)
  from Cons.prems obtain St1 where
    1: "shareCaptures LocalDeclMap (captures CS) St = Inr St1" and
    2: "shareCapturedStmts LocalDeclMap CSs St1 = Inr St'"
    by (auto split: sum.splits)
  have "refines LocalDeclMap (captures CS) St St1" using 1 by (rule shareCaptures_refines)
  moreover have "refines LocalDeclMap (allCaptures CSs) St1 St'" using 2 by (rule Cons.IH)
  ultimately have "refines LocalDeclMap (captures CS @ allCaptures CSs) St St'"
    by (rule refines_trans)
  then show ?case by (simp add: allCaptures_def)
qed

lemma shareCaptures_total:
  "\<forall>Cap \<in> set Caps. hasSharableAddress LocalDeclMap Cap \<Longrightarrow>
   \<exists>St'. shareCaptures LocalDeclMap Caps St = Inr St'"
proof (induction Caps arbitrary: St)
  case Nil
  then show ?case by simp
next
  case (Cons Cap Caps)
  then obtain St1 where "shareCapture LocalDeclMap Cap St = Inr St1"
    using shareCapture_total [of LocalDeclMap Cap St] by auto
  then show ?case using Cons by simp
qed

lemma shareCapturedStmts_total:
  "\<forall>Cap \<in> set (allCaptures CSs). hasSharableAddress LocalDeclMap Cap \<Longrightarrow>
   \<exists>St'. shareCapturedStmts LocalDeclMap CSs St = Inr St'"
proof (induction CSs arbitrary: St)
  case Nil
  then show ?case by simp
next
  case (Cons CS CSs)
  then have "\<forall>Cap \<in> set (captures CS). hasSharableAddress LocalDeclMap Cap"
    by (simp add: allCaptures_def)
  then obtain St1 where "shareCaptures LocalDeclMap (captures CS) St = Inr St1"
    using shareCaptures_total [of "captures CS" LocalDeclMap St] by auto
  moreover have "\<forall>Cap \<in> set (allCaptures CSs). hasSharableAddress LocalDeclMap Cap"
    using Cons.prems by (simp add: allCaptures_def)
  ultimately show ?case using Cons.IH by simp
qed


lemma refines_empty:
  assumes "refines LocalDeclMap Caps emptySharingState St"
  shows "InfoCapturesValues St =
           map (\<lambda>(v, d, t). (v, d)) (firstDescriptors {} (descriptors LocalDeclMap Caps))"
    and "SharedMasterRD St =
           map (\<lambda>(v, d, t). t) (firstDescriptors {} (descriptors LocalDeclMap Caps))"
    and "SharedWarpRD St =
           map (\<lambda>t. ConstantArrayType t DS_Max_Worker_Warp_Size) (SharedMasterRD St)"
  using assms by (simp_all add: refines_def emptySharingState_def Let_def split_def comp_def)

lemma createDataSharingInfo_Inr:
  assumes "createDataSharingInfo LocalDeclMap Context = Inr Info"
  shows "\<exists>Body CSs St. getBody Context = Inr Body \<and>
           collectCapturedStmts [Body] [] = Inr CSs \<and> CSs \<noteq> [] \<and>
           shareCapturedStmts LocalDeclMap CSs emptySharingState = Inr St \<and>
           Info = \<lparr>CapturesValues = InfoCapturesValues St,
                   MasterRecordType = SharedMasterRD St,
                   WorkerWarpRecordType = SharedWarpRD St\<rparr>"
  using assms
  by (auto simp add: createDataSharingInfo_def assert_that_def split: sum.splits if_splits)

lemma createDataSharingInfo_total:
  assumes "getBody Context = Inr Body" and "collectCapturedStmts [Body] [] = Inr CSs"
    and "CSs \<noteq> []" and "\<forall>Cap \<in> set (allCaptures CSs). hasSharableAddress LocalDeclMap Cap"
  shows "\<exists>Info. createDataSharingInfo LocalDeclMap Context = Inr Info"
proof -
  obtain St where "shareCapturedStmts LocalDeclMap CSs emptySharingState = Inr St"
    using shareCapturedStmts_total [OF assms(4)] by blast
  then show ?thesis using assms(1-3) by (simp add: createDataSharingInfo_def assert_that_def)
qed

lemma map_of_descriptor_modes:
  "map_of ds v = Some (d, t) \<Longrightarrow> map_of (map (\<lambda>(v, d, t). (v, d)) ds) v = Some d"
  by (induction ds) (auto split: if_splits)

text \<open>
  Where the planner returns. Whenever \<^verbatim>\<open>createDataSharingInfo\<close> returns for a context,
  the identities in \<open>CapturesValues\<close> are pairwise distinct and are exactly the identities
  of the planned captures (by reference, or \<open>this\<close>) of the parallel and simd regions
  collected from the body of the context; each entry carries the sharing mode of the first
  capture of its identity, in the order in which the regions and their captures are
  visited; and both record layouts have one field per entry. It does return when the
  context is a captured declaration with at least one such region and the address of
  every variable captured by reference is a local instruction.
\<close>

lemma planned_captures_deduplicated:
  "(\<forall>Body CSs. getBody Context = Inr Body \<and> collectCapturedStmts [Body] [] = Inr CSs \<and>
       CSs \<noteq> [] \<and> (\<forall>Cap \<in> set (allCaptures CSs). hasSharableAddress LocalDeclMap Cap) \<longrightarrow>
       (\<exists>Info. createDataSharingInfo LocalDeclMap Context = Inr Info)) \<and>
   (\<forall>Info. createDataSharingInfo LocalDeclMap Context = Inr Info \<longrightarrow>
      (\<exists>Body CSs. getBody Context = Inr Body \<and> collectCapturedStmts [Body] [] = Inr CSs \<and>
         distinct (map fst (CapturesValues Info)) \<and>
         set (map fst (CapturesValues Info)) =
           CapturedIdentity ` {Cap \<in> set (allCaptures CSs). isPlanned Cap} \<and>
         (\<forall>(v, d) \<in> set (CapturesValues Info).
            map_of (map (\<lambda>(v, d, t). (v, d)) (descriptors LocalDeclMap (allCaptures CSs))) v
              = Some d) \<and>
         length (MasterRecordType Info) = length (CapturesValues Info) \<and>
         length (WorkerWarpRecordType Info) = length (CapturesValues Info)))"
proof (intro conjI allI impI)
  fix Body CSs
  assume "getBody Context = Inr Body \<and> collectCapturedStmts [Body] [] = Inr CSs \<and>
       CSs \<noteq> [] \<and> (\<forall>Cap \<in> set (allCaptures CSs). hasSharableAddress LocalDeclMap Cap)"
  then show "\<exists>Info. createDataSharingInfo LocalDeclMap Context = Inr Info"
    using createDataSharingInfo_total by blast
next
  fix Info
  assume "createDataSharingInfo LocalDeclMap Context = Inr Info"
  then obtain Body CSs St where
    body: "getBody Context = Inr Body" and coll: "collectCapturedStmts [Body] [] = Inr CSs" and
    share: "shareCapturedStmts LocalDeclMap CSs emptySharingState = Inr St" and
    info: "Info = \<lparr>CapturesValues = InfoCapturesValues St, MasterRecordType = SharedMasterRD St,
                   WorkerWarpRecordType = SharedWarpRD St\<rparr>"
    using createDataSharingInfo_Inr by blast
  let ?ds = "descriptors LocalDeclMap (allCaptures CSs)"
  let ?new = "firstDescriptors {} ?ds"
  note r = refines_empty [OF shareCapturedStmts_refines [OF share]]
  have fst_eq: "map fst (InfoCapturesValues St) = map fst ?new"
    by (simp add: r(1) split_def comp_def)
  have 1: "distinct (map fst (CapturesValues Info))"
    using firstDescriptors_distinct [of "{}" ?ds] by (simp add: info fst_eq)
  have 2: "set (map fst (CapturesValues Info)) =
      CapturedIdentity ` {Cap \<in> set (allCaptures CSs). isPlanned Cap}"
    using firstDescriptors_fst [of "{}" ?ds] by (simp add: info fst_eq descriptors_fst)
  have 3: "\<forall>(v, d) \<in> set (CapturesValues Info).
      map_of (map (\<lambda>(v, d, t). (v, d)) ?ds) v = Some d"
  proof (clarify)
    fix v d
    assume "(v, d) \<in> set (CapturesValues Info)"
    then obtain t where "(v, d, t) \<in> set ?new" by (auto simp: info r(1))
    then have "map_of ?ds v = Some (d, t)" by (rule firstDescriptors_first)
    then show "map_of (map (\<lambda>(v, d, t). (v, d)) ?ds) v = Some d"
      by (rule map_of_descriptor_modes)
  qed
  have 4: "length (MasterRecordType Info) = length (CapturesValues Info)"
    by (simp add: info r(1,2))
  have 5: "length (WorkerWarpRecordType Info) = length (CapturesValues Info)"
    by (simp add: info r(1,2,3))
  show "\<exists>Body CSs. getBody Context = Inr Body \<and> collectCapturedStmts [Body] [] = Inr CSs \<and>
         distinct (map fst (CapturesValues Info)) \<and>
         set (map fst (CapturesValues Info)) =
           CapturedIdentity ` {Cap \<in> set (allCaptures CSs). isPlanned Cap} \<and>
         (\<forall>(v, d) \<in> set (CapturesValues Info).
            map_of (map (\<lambda>(v, d, t). (v, d)) (descriptors LocalDeclMap (allCaptures CSs))) v
              = Some d) \<and>
         length (MasterRecordType Info) = length (CapturesValues Info) \<and>
         length (WorkerWarpRecordType Info) = length (CapturesValues Info)"
    using body coll 1 2 3 4 5 by blast
qed


lemmas planner_simps =
  createDataSharingInfo_def getBody_def assert_that_def shareCapture_def addShared_def
  hasCapturedVLAType_def capturesThis_def capturesVariableByCopy_def Let_def
  DS_Max_Worker_Warp_Size_def emptySharingState_def byRef_def exampleLocalDeclMap_def
  string_literal_as_condition_def collectCapturedStmts.simps allCaptures_def
  hasSharableAddress_def isPlanned_def CapturedIdentity_def descriptors_def
  SharingModeOf_def MasterFieldOf_def

lemma exampleContextF_plan:
  "createDataSharingInfo exampleLocalDeclMap exampleContextF =
     Inr \<lparr>CapturesValues = [(Some ''x'', DST_Val), (Some ''y'', DST_Ref)],
          MasterRecordType = [BuiltinType ''int'', PointerType (BuiltinType ''int'')],
          WorkerWarpRecordType =
            [ConstantArrayType (BuiltinType ''int'') 32,
             ConstantArrayType (PointerType (BuiltinType ''int'')) 32]\<rparr>"
  by (simp add: planner_simps exampleContextF_def)

lemma exampleTwoRegions_plan:
  "createDataSharingInfo exampleLocalDeclMap exampleTwoRegions =
     Inr \<lparr>CapturesValues = [(Some ''z'', DST_Cast), (Some ''x'', DST_Val), (None, DST_Val)],
          MasterRecordType =
            [BuiltinType ''double'', BuiltinType ''int'', PointerType (RecordType ''S'')],
          WorkerWarpRecordType =
            [ConstantArrayType (BuiltinType ''double'') 32,
             ConstantArrayType (BuiltinType ''int'') 32,
             ConstantArrayType (PointerType (RecordType ''S'')) 32]\<rparr>"
  by (simp add: planner_simps exampleTwoRegions_def)

text \<open>
  C5. The claim is made for every enclosing context, and the source names two kinds: \<open>The
  region context is either a function or a captured declaration\<close>. For a function the
  planner produces no descriptor at all. \<^verbatim>\<open>createDataSharingInfo\<close> tests the context with
  \<^verbatim>\<open>dyn_cast<CapturedDecl>\<close> and, in the branch where that test has failed, casts the
  variable \<^verbatim>\<open>D\<close> the test has just left null (\<^verbatim>\<open>cast<FunctionDecl>(D)\<close>) instead of the
  context. The cast of a null pointer aborts, before any region is collected: whatever the
  regions of a function capture, and so also for the function with the two regions that
  share \<open>x\<close>, whose captures are deduplicated when the same body is a captured declaration.
\<close>

theorem planner_aborts_on_function_context:
  "createDataSharingInfo LocalDeclMap (FunctionDecl name Body) =
     Inl (CastFailed ''FunctionDecl'') \<and>
   createDataSharingInfo exampleLocalDeclMap exampleFunctionTwoRegions =
     Inl (CastFailed ''FunctionDecl'') \<and>
   createDataSharingInfo exampleLocalDeclMap exampleTwoRegions =
     Inr \<lparr>CapturesValues = [(Some ''z'', DST_Cast), (Some ''x'', DST_Val), (None, DST_Val)],
          MasterRecordType =
            [BuiltinType ''double'', BuiltinType ''int'', PointerType (RecordType ''S'')],
          WorkerWarpRecordType =
            [ConstantArrayType (BuiltinType ''double'') 32,
             ConstantArrayType (BuiltinType ''int'') 32,
             ConstantArrayType (PointerType (RecordType ''S'')) 32]\<rparr>"
  by (simp add: exampleTwoRegions_plan)
    (simp add: createDataSharingInfo_def getBody_def exampleFunctionTwoRegions_def)

lemma firstDescriptors_mem: "p \<in> set (firstDescriptors seen ds) \<Longrightarrow> p \<in> set ds"
proof (induction ds arbitrary: seen)
  case Nil
  then show ?case by simp
next
  case (Cons d ds)
  obtain w y where d: "d = (w, y)" by (cases d)
  from Cons.prems d have "p = d \<or> p \<in> set (firstDescriptors seen ds) \<or>
      p \<in> set (firstDescriptors (insert w seen) ds)"
    by (auto split: if_splits)
  then show ?case using Cons.IH by auto
qed

lemma descriptors_mem:
  "(v, d, t) \<in> set (descriptors LocalDeclMap Caps) \<Longrightarrow>
   \<exists>Cap \<in> set Caps. isPlanned Cap \<and> CapturedIdentity Cap = v \<and>
     SharingModeOf LocalDeclMap Cap = d \<and>
     t = (if d = DST_Ref then PointerType (InitType Cap) else InitType Cap)"
  by (auto simp: descriptors_def MasterFieldOf_def)

text \<open>
  Whenever \<^verbatim>\<open>createDataSharingInfo\<close> returns for a context, the master record has one
  field per entry of \<open>CapturesValues\<close>, in the same order; the field of an entry is the
  type of the expression that initializes the capture it was made from, wrapped in a
  pointer type exactly when the entry is shared by reference; and the worker warp record
  is, field by field, the array of \<^verbatim>\<open>DS_Max_Worker_Warp_Size\<close> (32) elements of the master
  field.
\<close>

lemma planned_layouts_follow_captures:
  "createDataSharingInfo LocalDeclMap Context = Inr Info \<longrightarrow>
     (\<exists>Body CSs. getBody Context = Inr Body \<and> collectCapturedStmts [Body] [] = Inr CSs \<and>
        length (MasterRecordType Info) = length (CapturesValues Info) \<and>
        WorkerWarpRecordType Info =
          map (\<lambda>T. ConstantArrayType T DS_Max_Worker_Warp_Size) (MasterRecordType Info) \<and>
        (\<forall>i < length (CapturesValues Info).
           \<exists>Cap \<in> set (allCaptures CSs).
             isPlanned Cap \<and> CapturedIdentity Cap = fst (CapturesValues Info ! i) \<and>
             SharingModeOf LocalDeclMap Cap = snd (CapturesValues Info ! i) \<and>
             MasterRecordType Info ! i =
               (if snd (CapturesValues Info ! i) = DST_Ref then PointerType (InitType Cap)
                else InitType Cap)))"
proof
  assume "createDataSharingInfo LocalDeclMap Context = Inr Info"
  then obtain Body CSs St where
    body: "getBody Context = Inr Body" and coll: "collectCapturedStmts [Body] [] = Inr CSs" and
    share: "shareCapturedStmts LocalDeclMap CSs emptySharingState = Inr St" and
    info: "Info = \<lparr>CapturesValues = InfoCapturesValues St, MasterRecordType = SharedMasterRD St,
                   WorkerWarpRecordType = SharedWarpRD St\<rparr>"
    using createDataSharingInfo_Inr by blast
  let ?ds = "descriptors LocalDeclMap (allCaptures CSs)"
  let ?new = "firstDescriptors {} ?ds"
  note r = refines_empty [OF shareCapturedStmts_refines [OF share]]
  have 1: "length (MasterRecordType Info) = length (CapturesValues Info)"
    by (simp add: info r(1,2))
  have 2: "WorkerWarpRecordType Info =
      map (\<lambda>T. ConstantArrayType T DS_Max_Worker_Warp_Size) (MasterRecordType Info)"
    by (simp add: info r(3))
  have 3: "\<exists>Cap \<in> set (allCaptures CSs).
             isPlanned Cap \<and> CapturedIdentity Cap = fst (CapturesValues Info ! i) \<and>
             SharingModeOf LocalDeclMap Cap = snd (CapturesValues Info ! i) \<and>
             MasterRecordType Info ! i =
               (if snd (CapturesValues Info ! i) = DST_Ref then PointerType (InitType Cap)
                else InitType Cap)"
    if "i < length (CapturesValues Info)" for i
  proof -
    from that have i: "i < length ?new" by (simp add: info r(1))
    obtain v d t where vdt: "?new ! i = (v, d, t)" by (cases "?new ! i")
    have "(v, d, t) \<in> set ?new" using i vdt nth_mem by metis
    then have "(v, d, t) \<in> set ?ds" by (rule firstDescriptors_mem)
    then obtain Cap where "Cap \<in> set (allCaptures CSs)" "isPlanned Cap"
      "CapturedIdentity Cap = v" "SharingModeOf LocalDeclMap Cap = d"
      "t = (if d = DST_Ref then PointerType (InitType Cap) else InitType Cap)"
      using descriptors_mem by blast
    moreover have "CapturesValues Info ! i = (v, d)" "MasterRecordType Info ! i = t"
      using i vdt by (simp_all add: info r(1,2))
    ultimately show ?thesis by auto
  qed
  show "\<exists>Body CSs. getBody Context = Inr Body \<and> collectCapturedStmts [Body] [] = Inr CSs \<and>
        length (MasterRecordType Info) = length (CapturesValues Info) \<and>
        WorkerWarpRecordType Info =
          map (\<lambda>T. ConstantArrayType T DS_Max_Worker_Warp_Size) (MasterRecordType Info) \<and>
        (\<forall>i < length (CapturesValues Info).
           \<exists>Cap \<in> set (allCaptures CSs).
             isPlanned Cap \<and> CapturedIdentity Cap = fst (CapturesValues Info ! i) \<and>
             SharingModeOf LocalDeclMap Cap = snd (CapturesValues Info ! i) \<and>
             MasterRecordType Info ! i =
               (if snd (CapturesValues Info ! i) = DST_Ref then PointerType (InitType Cap)
                else InitType Cap))"
    using body coll 1 2 3 by blast
qed

text \<open>
  C6. The claim gives every enclosing context its two layouts, and its example is a
  context \<open>F\<close> with one parallel region that captures \<open>x\<close> (by value address) and \<open>y\<close> (by
  reference). When \<open>F\<close> is a captured declaration the planner returns the layouts of the
  example, \<^verbatim>\<open>{int; int*}\<close> and \<^verbatim>\<open>{int[32]; int*[32]}\<close>. When \<open>F\<close> is a function, the other
  kind of context the source names, the planner returns no layout: it aborts in the cast
  of the null pointer \<^verbatim>\<open>D\<close> before it reads the body.
\<close>

theorem function_context_gets_no_layouts:
  "createDataSharingInfo exampleLocalDeclMap exampleFunctionF =
     Inl (CastFailed ''FunctionDecl'') \<and>
   createDataSharingInfo exampleLocalDeclMap exampleContextF =
     Inr \<lparr>CapturesValues = [(Some ''x'', DST_Val), (Some ''y'', DST_Ref)],
          MasterRecordType = [BuiltinType ''int'', PointerType (BuiltinType ''int'')],
          WorkerWarpRecordType =
            [ConstantArrayType (BuiltinType ''int'') 32,
             ConstantArrayType (PointerType (BuiltinType ''int'')) 32]\<rparr>"
  by (simp add: exampleContextF_plan)
    (simp add: createDataSharingInfo_def getBody_def exampleFunctionF_def)



lemmas builder_simps =
  createBasicBlock_def Insert_def Terminate_def EmitBranch_def EmitBlock_def CreateCondBr_def
  CreateStore_def CreateCall_def CreateTempAlloca_def InitTempAlloca_def StartFunction_def
  FinishFunction_def Let_def split_def

lemma fuel5: "n + 5 = Suc (Suc (Suc (Suc (Suc n))))"
  by simp

lemma regions_run_call [simp]:
  "regions_run (set_reg k v (s\<lparr>events := events s @ [Ev (Direct f) ds]\<rparr>)) =
     regions_run s @ [f]"
  by (simp add: regions_run_def called_def set_reg_def)

lemma eval_getNVPTXThreadID [simp]: "eval s getNVPTXThreadID = DInt (nvptx_tid s)"
  by (simp add: getNVPTXThreadID_def)

lemma eval_MasterThreadId [simp]: "eval s getMasterThreadID = DInt (MasterThreadId s)"
  by (simp add: eval_getMasterThreadID MasterThreadId_def)

subsection \<open>Parallelism level classifier: the three-way dispatch\<close>

lemma dispatch_orphaned:
  "IsOrphaned RT \<Longrightarrow> dispatch RT fn =
    \<lparr>CurFn = fn,
     Blocks =
       [\<lparr>BBName = ''entry'', Insts = [],
         BBTerm = Some (CondBr (CreateICmpEQ getNVPTXThreadID getMasterThreadID) 2 3)\<rparr>,
        \<lparr>BBName = ''.after.parallel'', Insts = [], BBTerm = None\<rparr>,
        \<lparr>BBName = ''.level0.parallel'', Insts = [CallInst 0 (Direct ''Level0'') []],
         BBTerm = Some (Br 1)\<rparr>,
        \<lparr>BBName = ''.next.parallel'', Insts = [],
         BBTerm = Some (CondBr (CreateICmpEQ getParallelismLevel (getInt32 1)) 4 5)\<rparr>,
        \<lparr>BBName = ''.level1.parallel'', Insts = [CallInst 1 (Direct ''Level1'') []],
         BBTerm = Some (Br 1)\<rparr>,
        \<lparr>BBName = ''.next.parallel'', Insts = [],
         BBTerm = Some (CondBr (CreateICmpSGT getParallelismLevel (getInt32 1)) 6 1)\<rparr>,
        \<lparr>BBName = ''.sequential.parallel'', Insts = [CallInst 2 (Direct ''Sequential'') []],
         BBTerm = Some (Br 1)\<rparr>],
     InsertBlock = Some 1, NumValues = 3, ReturnValue = None, ParamAddrs = []\<rparr>"
  by (simp add: dispatch_def emitParallelismLevelCode_def InL0_def InL1_def EmitRegion_def
      builder_simps)



lemma run_dispatch_orphaned:
  assumes "IsOrphaned RT"
    and "nvptx_tid s \<noteq> MasterThreadId s \<longrightarrow> eval s getParallelismLevel = DInt PL"
  shows "outcome (run Map.empty (n + 5) (dispatch RT fn) 0 s) =
     StandsAt 1 (regions_run s @ LevelSelected RT s PL)"
proof (cases "nvptx_tid s = MasterThreadId s")
  case True
  then show ?thesis using assms(1)
    by (simp add: dispatch_orphaned fuel5 LevelSelected_def outcome_def)
next
  case False
  then have PL: "eval s getParallelismLevel = DInt PL" using assms(2) by simp
  show ?thesis using assms(1) False PL
    by (simp add: dispatch_orphaned fuel5 LevelSelected_def word_sless_alt outcome_def)
qed







subsection \<open>The run-time parallelism level\<close>

lemma run_Open_unterminated:
  "run M n F l s = Open e s' \<Longrightarrow> e < length (Blocks F) \<and> BBTerm (Blocks F ! e) = None"
proof (induction n arbitrary: l s)
  case 0
  then show ?case by simp
next
  case (Suc n)
  then show ?case
    by (auto split: if_splits sum.splits option.splits Terminator.splits dyn.splits)
qed

lemma exec_insts_append:
  "exec_insts M n (Is @ Js) s =
     (case exec_insts M n Is s of Inl e \<Rightarrow> Inl e | Inr s' \<Rightarrow> exec_insts M n Js s')"
  by (induction Is arbitrary: s) (auto split: sum.splits)

lemma run_appendInsts:
  assumes "run M n F l s = Open e s'"
    and "\<And>k. exec_insts M k Is s' = Inr s''"
  shows "run M n (appendInsts e Is F) l s = Open e s''"
  using assms(1)
proof (induction n arbitrary: l s)
  case 0
  then show ?case by simp
next
  case (Suc n)
  from Suc.prems have e: "e < length (Blocks F)" "BBTerm (Blocks F ! e) = None"
    using run_Open_unterminated by blast+
  from Suc.prems have l: "l < length (Blocks F)" by (auto split: if_splits)
  show ?case
  proof (cases "l = e")
    case True
    with Suc.prems e have "exec_insts M n (Insts (Blocks F ! e)) s = Inr s'"
      by (auto split: sum.splits)
    then show ?thesis using True e assms(2)
      by (simp add: appendInsts_def exec_insts_append)
  next
    case False
    then have same: "Blocks (appendInsts e Is F) ! l = Blocks F ! l"
      "length (Blocks (appendInsts e Is F)) = length (Blocks F)"
      by (simp_all add: appendInsts_def)
    from Suc.prems l obtain s1 where s1: "exec_insts M n (Insts (Blocks F ! l)) s = Inr s1"
      by (auto split: sum.splits)
    show ?thesis
    proof (cases "BBTerm (Blocks F ! l)")
      case None
      with Suc.prems l s1 False show ?thesis by simp
    next
      case (Some T)
      show ?thesis
      proof (cases T)
        case (Br t)
        with Suc.prems l s1 Some have "run M n F t s1 = Open e s'" by simp
        then have "run M n (appendInsts e Is F) t s1 = Open e s''" by (rule Suc.IH)
        then show ?thesis using l s1 Some Br same by simp
      next
        case (CondBr c t f)
        with Suc.prems l s1 Some obtain b where b: "eval s1 c = DBool b"
          and r: "run M n F (if b then t else f) s1 = Open e s'"
          by (auto split: dyn.splits)
        from r have "run M n (appendInsts e Is F) (if b then t else f) s1 = Open e s''"
          by (rule Suc.IH)
        then show ?thesis using l s1 Some CondBr same b by simp
      next
        case (Ret v)
        with Suc.prems l s1 Some show ?thesis by simp
      qed
    qed
  qed
qed


lemma sint_add_no_wrap:
  "no_signed_wrap (sint (x :: i32) + sint y) \<Longrightarrow> sint (x + y) = sint x + sint y"
  by (simp add: sint_word_add no_signed_wrap_def signed_take_bit_int_eq_self)

lemma sint_incr: "sint (if IsSimd then 10 else 1 :: i32) = (if IsSimd then 10 else 1)"
  by simp

lemma level_address:
  assumes "eval s getParallelismLevel = DInt v"
  shows "\<exists>p. eval s getParallelismLevelLValue = DPtr p \<and> mem s p = DInt v"
  using assms
  by (cases "eval s getParallelismLevelLValue") (simp_all add: getParallelismLevel_def)

lemma eval_level_frame:
  "nvptx_tid s' = nvptx_tid s \<Longrightarrow>
   eval s' getParallelismLevelLValue = eval s getParallelismLevelLValue"
  by (simp add: getParallelismLevelLValue_def getNVPTXThreadID_def)

lemma exec_increase:
  assumes "eval s getParallelismLevel = DInt v"
    and "no_signed_wrap (sint v + (if IsSimd then 10 else 1))"
  shows "\<exists>s'. (\<forall>k. exec_insts M k
           [StoreInst (CreateNSWAdd (CreateLoad getParallelismLevelLValue)
              (getInt32 (if IsSimd then 10 else 1))) getParallelismLevelLValue] s = Inr s') \<and>
         eval s' getParallelismLevel = DInt (v + (if IsSimd then 10 else 1))"
proof -
  obtain p where p: "eval s getParallelismLevelLValue = DPtr p" "mem s p = DInt v"
    using level_address [OF assms(1)] by blast
  let ?s' = "s\<lparr>mem := (mem s)(p := DInt (v + (if IsSimd then 10 else 1)))\<rparr>"
  have "eval ?s' getParallelismLevelLValue = DPtr p"
    using p(1) eval_level_frame [of ?s' s] by simp
  then have "eval ?s' getParallelismLevel = DInt (v + (if IsSimd then 10 else 1))"
    by (simp add: getParallelismLevel_def)
  moreover have "exec_insts M k
           [StoreInst (CreateNSWAdd (CreateLoad getParallelismLevelLValue)
              (getInt32 (if IsSimd then 10 else 1))) getParallelismLevelLValue] s = Inr ?s'" for k
    using p assms(2) by (cases IsSimd) (simp_all add: store_def)
  ultimately show ?thesis by blast
qed

lemma exec_decrease:
  assumes "eval s getParallelismLevel = DInt (v + (if IsSimd then 10 else 1))"
    and "no_signed_wrap (sint v + (if IsSimd then 10 else 1))"
  shows "\<exists>s'. (\<forall>k. exec_insts M k
           [StoreInst (CreateNSWSub (CreateLoad getParallelismLevelLValue)
              (getInt32 (if IsSimd then 10 else 1))) getParallelismLevelLValue] s = Inr s') \<and>
         eval s' getParallelismLevel = DInt v"
proof -
  obtain p where p: "eval s getParallelismLevelLValue = DPtr p"
    "mem s p = DInt (v + (if IsSimd then 10 else 1))"
    using level_address [OF assms(1)] by blast
  let ?s' = "s\<lparr>mem := (mem s)(p := DInt v)\<rparr>"
  have "eval ?s' getParallelismLevelLValue = DPtr p"
    using p(1) eval_level_frame [of ?s' s] by simp
  then have "eval ?s' getParallelismLevel = DInt v"
    by (simp add: getParallelismLevel_def)
  moreover have sum: "sint (v + (if IsSimd then 10 else 1)) = sint v + (if IsSimd then 10 else 1)"
    using sint_add_no_wrap [of v "if IsSimd then 10 else 1"] assms(2) by (simp split: if_splits)
  have "no_signed_wrap (sint v)"
    using sint_range_size [of v] by (simp add: no_signed_wrap_def word_size)
  then have "exec_insts M k
           [StoreInst (CreateNSWSub (CreateLoad getParallelismLevelLValue)
              (getInt32 (if IsSimd then 10 else 1))) getParallelismLevelLValue] s = Inr ?s'" for k
    using p sum by (cases IsSimd) (simp_all add: store_def)
  ultimately show ?thesis by blast
qed

lemma increase_appends:
  "InsertBlock CGF = Some c \<Longrightarrow>
   increaseParallelismLevel IsSimd CGF =
     appendInsts c
       [StoreInst (CreateNSWAdd (CreateLoad getParallelismLevelLValue)
          (getInt32 (if IsSimd then 10 else 1))) getParallelismLevelLValue] CGF"
  by (simp add: increaseParallelismLevel_def CreateStore_def Insert_def appendInsts_def Let_def)

lemma decrease_appends:
  "InsertBlock CGF = Some c \<Longrightarrow>
   decreaseParallelismLevel IsSimd CGF =
     appendInsts c
       [StoreInst (CreateNSWSub (CreateLoad getParallelismLevelLValue)
          (getInt32 (if IsSimd then 10 else 1))) getParallelismLevelLValue] CGF"
  by (simp add: decreaseParallelismLevel_def CreateStore_def Insert_def appendInsts_def Let_def)

text \<open>
  Where the exit code is reached. For a lane whose level is \<open>v\<close> when the run arrives at
  the region entry, the entry code raises the level to \<open>v + 1\<close> for a parallel region and
  to \<open>v + 10\<close> for a simd region (the addition carries \<^verbatim>\<open>nsw\<close>, so the sum must not
  wrap). If the run of the body then arrives at the insertion point the body generator
  leaves, with the level where the entry code put it, the run of the whole region passes
  the exit code there and the level is \<open>v\<close> again.
\<close>

lemma level_restored_after_fall_through:
  assumes "run M n CGF l s = Open c s0" and "InsertBlock CGF = Some c"
    and "eval s0 getParallelismLevel = DInt v"
    and "no_signed_wrap (sint v + (if IsSimd then 10 else 1))"
  shows "\<exists>s1. run M n (increaseParallelismLevel IsSimd CGF) l s = Open c s1 \<and>
            eval s1 getParallelismLevel = DInt (v + (if IsSimd then 10 else 1))"
    and "run M n (CodeGen (increaseParallelismLevel IsSimd CGF)) l s = Open e s2 \<and>
          InsertBlock (CodeGen (increaseParallelismLevel IsSimd CGF)) = Some e \<and>
          eval s2 getParallelismLevel = DInt (v + (if IsSimd then 10 else 1)) \<Longrightarrow>
          \<exists>s3. run M n (CodeGenWithDataSharing IsSimd CodeGen CGF) l s = Open e s3 \<and>
                eval s3 getParallelismLevel = DInt v"
proof -
  obtain s1 where s1: "\<forall>k. exec_insts M k
           [StoreInst (CreateNSWAdd (CreateLoad getParallelismLevelLValue)
              (getInt32 (if IsSimd then 10 else 1))) getParallelismLevelLValue] s0 = Inr s1"
    "eval s1 getParallelismLevel = DInt (v + (if IsSimd then 10 else 1))"
    using exec_increase [of s0 v IsSimd M] assms(3,4) by blast
  have "run M n (increaseParallelismLevel IsSimd CGF) l s = Open c s1"
    using assms(1,2) s1(1) by (simp add: increase_appends run_appendInsts)
  then show "\<exists>s1. run M n (increaseParallelismLevel IsSimd CGF) l s = Open c s1 \<and>
            eval s1 getParallelismLevel = DInt (v + (if IsSimd then 10 else 1))"
    using s1(2) by blast
next
  assume b: "run M n (CodeGen (increaseParallelismLevel IsSimd CGF)) l s = Open e s2 \<and>
          InsertBlock (CodeGen (increaseParallelismLevel IsSimd CGF)) = Some e \<and>
          eval s2 getParallelismLevel = DInt (v + (if IsSimd then 10 else 1))"
  then obtain s3 where s3: "\<forall>k. exec_insts M k
           [StoreInst (CreateNSWSub (CreateLoad getParallelismLevelLValue)
              (getInt32 (if IsSimd then 10 else 1))) getParallelismLevelLValue] s2 = Inr s3"
    "eval s3 getParallelismLevel = DInt v"
    using exec_decrease [of s2 v IsSimd M] assms(4) by blast
  have "run M n (CodeGenWithDataSharing IsSimd CodeGen CGF) l s = Open e s3"
    using b s3(1) by (simp add: CodeGenWithDataSharing_def Let_def decrease_appends run_appendInsts)
  then show "\<exists>s3. run M n (CodeGenWithDataSharing IsSimd CodeGen CGF) l s = Open e s3 \<and>
                eval s3 getParallelismLevel = DInt v"
    using s3(2) by blast
qed

lemma eval_getParallelismLevelLValue:
  "eval s getParallelismLevelLValue =
     (if index_below (nvptx_tid s) DS_Max_Worker_Threads
      then DPtr (PGEP (PGlobal ''__openmp_nvptx_parallelism_levels'') [0, nvptx_tid s])
      else DPoison)"
  by (simp add: getParallelismLevelLValue_def getNVPTXThreadID_def)

lemma kernel_start_simps [simp]:
  "nvptx_tid (kernel_start t N W b) = t"
  "nvptx_num_threads (kernel_start t N W b) = N"
  "nvptx_warp_size (kernel_start t N W b) = W"
  "nvptx_block_id (kernel_start t N W b) = b"
  "events (kernel_start t N W b) = []"
  "args (kernel_start t N W b) = []"
  by (simp_all add: kernel_start_def)

lemma at_level_simps [simp]:
  "nvptx_tid (at_level v s) = nvptx_tid s"
  "nvptx_num_threads (at_level v s) = nvptx_num_threads s"
  "nvptx_warp_size (at_level v s) = nvptx_warp_size s"
  "events (at_level v s) = events s"
  "mem (at_level v s) =
     (mem s)(PGEP (PGlobal ''__openmp_nvptx_parallelism_levels'') [0, nvptx_tid s] := DInt v)"
  by (simp_all add: at_level_def)

lemma cancelled_simps [simp]:
  "nvptx_tid (cancelled c s) = nvptx_tid s"
  "events (cancelled c s) = events s"
  "mem (cancelled c s) = (mem s)(PGlobal ''cancelled'' := DInt (if c then 1 else 0))"
  by (simp_all add: cancelled_def)

lemma outlinedRegion_cancel:
  "Blocks (outlinedRegion False exampleCancelBody) =
     [\<lparr>BBName = ''entry'',
       Insts = [StoreInst (CreateNSWAdd (CreateLoad getParallelismLevelLValue) (getInt32 1))
                  getParallelismLevelLValue],
       BBTerm = Some (CondBr (CreateICmpNE (CreateLoad (GlobalVariable ''cancelled''))
                                (getInt32 0)) 1 2)\<rparr>,
      \<lparr>BBName = ''.cancel.exit'', Insts = [], BBTerm = Some (Ret None)\<rparr>,
      \<lparr>BBName = ''.cancel.continue'',
       Insts = [CallInst 0 (Direct ''rest'') [],
                StoreInst (CreateNSWSub (CreateLoad getParallelismLevelLValue) (getInt32 1))
                  getParallelismLevelLValue],
       BBTerm = Some (Ret None)\<rparr>]"
  by (simp add: outlinedRegion_def CodeGenWithDataSharing_def exampleCancelBody_def
      increaseParallelismLevel_def decreaseParallelismLevel_def EmitRegion_def builder_simps)

lemma outlinedRegion_simd:
  "Blocks (outlinedRegion True (EmitRegion ''simd_body'')) =
     [\<lparr>BBName = ''entry'',
       Insts = [StoreInst (CreateNSWAdd (CreateLoad getParallelismLevelLValue) (getInt32 10))
                  getParallelismLevelLValue,
                CallInst 0 (Direct ''simd_body'') [],
                StoreInst (CreateNSWSub (CreateLoad getParallelismLevelLValue) (getInt32 10))
                  getParallelismLevelLValue],
       BBTerm = Some (Ret None)\<rparr>]"
  by (simp add: outlinedRegion_def CodeGenWithDataSharing_def
      increaseParallelismLevel_def decreaseParallelismLevel_def EmitRegion_def builder_simps)

lemma fuel2: "(2::nat) = Suc (Suc 0)"
  by simp

lemmas level_eval_simps =
  level_after_def outcome_def getParallelismLevel_def eval_getParallelismLevelLValue
  no_signed_wrap_def store_def set_reg_def index_below_def DS_Max_Worker_Threads_def

text \<open>
  C2. The claim has the counter restored after a region whatever the control flow inside
  the region. The generator emits the decrement once, as straight-line code at the
  insertion point the body generator leaves (\<^verbatim>\<open>increaseParallelismLevel(CGF); CodeGen(CGF);
  decreaseParallelismLevel(CGF);\<close>), and registers no cleanup, so a lane that leaves the
  body on another path never executes it. In the outlined parallel region whose body has
  a cancellation exit, lane 70 of a block of 128 enters with level 0: with the flag set it
  returns from \<^verbatim>\<open>.cancel.exit\<close> with level 1; with the flag clear it runs the rest of the
  body and returns with level 0. The claim is also made for every lane, and the array has
  \<^verbatim>\<open>DS_Max_Worker_Threads\<close> (992) elements, indexed by the thread id: in a block of 1024
  threads the master is lane 992, and its run of a simd region has no defined behaviour,
  the entry code storing through an out-of-bounds \<^verbatim>\<open>inbounds\<close> address.
\<close>

theorem parallelism_level_left_raised_by_early_exit:
  "outcome (run Map.empty 2 (outlinedRegion False exampleCancelBody) 0
      (cancelled True (at_level 0 (kernel_start 70 128 32 0)))) = Left [] \<and>
   level_after (run Map.empty 2 (outlinedRegion False exampleCancelBody) 0
      (cancelled True (at_level 0 (kernel_start 70 128 32 0)))) = DInt 1 \<and>
   outcome (run Map.empty 2 (outlinedRegion False exampleCancelBody) 0
      (cancelled False (at_level 0 (kernel_start 70 128 32 0)))) = Left [''rest''] \<and>
   level_after (run Map.empty 2 (outlinedRegion False exampleCancelBody) 0
      (cancelled False (at_level 0 (kernel_start 70 128 32 0)))) = DInt 0 \<and>
   MasterThreadId (kernel_start 992 1024 32 0) = 992 \<and>
   outcome (run Map.empty 2 (outlinedRegion True (EmitRegion ''simd_body'')) 0
      (at_level 0 (kernel_start 992 1024 32 0))) = NoOutcome Undefined"
  by (simp add: fuel2 outlinedRegion_cancel outlinedRegion_simd level_eval_simps
      regions_run_def called_def MasterThreadId_def)


subsection \<open>Kernel entry\<close>

lemmas entry_simps =
  getNVPTXCTABarrier_def syncCTAThreads_def EmitRuntimeCall_def getNVPTXWarpActiveThreadsMask_def
  getNVPTXWarpActiveThreadID_def getNVPTXIsWarpActiveMaster_def initializeDataSharing_def
  ReturnValueAddr_def
lemmas inline_simps = Let_def split_def if_True if_False simp_thms

lemma createKernelInitializerFunction_blocks:
  "Blocks (createKernelInitializerFunction WorkerFunction) =
     [\<lparr>BBName = ''entry'',
       Insts = [StoreInst (ConstantInt Int32Ty 1)
                  (AllocaInst ''__omp_kernel_initialization'' 0 ''retval'')],
       BBTerm = Some (CondBr (CreateICmpULT getNVPTXThreadID getThreadLimit) 1 2)\<rparr>,
      \<lparr>BBName = ''.worker'',
       Insts = [CallInst 1 (RuntimeFunction OMPRTL_NVPTX__kmpc_warp_active_thread_mask) []],
       BBTerm =
         Some (CondBr
                 (CreateICmpEQ
                    (nvvm_popc_i
                       (CreateShl (CallValue 1) (CreateSub (getInt32 32) getNVPTXThreadWarpID)))
                    (getInt32 0))
                 6 5)\<rparr>,
      \<lparr>BBName = ''.ismaster'', Insts = [],
       BBTerm = Some (CondBr (CreateICmpEQ getNVPTXThreadID getMasterThreadID) 3 4)\<rparr>,
      \<lparr>BBName = ''.master'',
       Insts =
         [CallInst 4 (RuntimeFunction OMPRTL_NVPTX__kmpc_initialize_data_sharing_environment)
            [CreateBitOrPointerCast (getDataSharingRootSlotLValue True),
             ConstantInt Int64Ty (int DS_Slot_Size)]],
       BBTerm = Some (Br 7)\<rparr>,
      \<lparr>BBName = ''.exit'', Insts = [],
       BBTerm =
         Some (Ret (Some (CreateLoad
                            (AllocaInst ''__omp_kernel_initialization'' 0 ''retval''))))\<rparr>,
      \<lparr>BBName = ''after_shared_data_init'',
       Insts = [CallInst 3 (Direct WorkerFunction) []], BBTerm = Some (Br 4)\<rparr>,
      \<lparr>BBName = ''shared_data_init'',
       Insts =
         [CallInst 2 (RuntimeFunction OMPRTL_NVPTX__kmpc_initialize_data_sharing_environment)
            [CreateBitOrPointerCast (getDataSharingRootSlotLValue False),
             ConstantInt Int64Ty (int DS_Worker_Warp_Slot_Size)]],
       BBTerm = Some (Br 5)\<rparr>,
      \<lparr>BBName = ''after_shared_data_init'',
       Insts = [StoreInst (ConstantInt Int32Ty 0)
                  (AllocaInst ''__omp_kernel_initialization'' 0 ''retval'')],
       BBTerm = Some (Br 4)\<rparr>]"
  "CurFn (createKernelInitializerFunction WorkerFunction) = ''__omp_kernel_initialization''"
  apply (simp_all only: createKernelInitializerFunction_def entry_simps inline_simps)
  apply (simp_all add: builder_simps)
  done

lemma kernelEntry_blocks:
  "\<exists>Ptr Fn. kernelEntry OutlinedFn WorkerFn (EmitRegion ''sequential_body'') =
       Inr (Ptr, Fn, createKernelInitializerFunction WorkerFn) \<and>
     Blocks Fn =
       [\<lparr>BBName = ''entry'',
         Insts = [CallInst 4 (Direct ''__omp_kernel_initialization'') []],
         BBTerm = Some (CondBr (CreateICmpEQ (CallValue 4) (getNullValue Int32Ty)) 3 1)\<rparr>,
        \<lparr>BBName = ''.sleepy.hollow'', Insts = [], BBTerm = Some (Ret None)\<rparr>,
        \<lparr>BBName = ''.termination.notifier'',
         Insts = [CallInst 2 (RuntimeFunction OMPRTL_NVPTX__kmpc_kernel_deinit) [],
                  CallInst 3 nvvm_barrier0 []],
         BBTerm = Some (Br 1)\<rparr>,
        \<lparr>BBName = ''.master'',
         Insts = [CallInst 0 (RuntimeFunction OMPRTL_NVPTX__kmpc_kernel_init)
                    [getInt32 0, getThreadLimit],
                  CallInst 1 (Direct ''sequential_body'') []],
         BBTerm = Some (Br 2)\<rparr>]"
  apply (simp only: kernelEntry_def emitTargetEntryFunction_def emitEntryHeader_def
      emitEntryFooter_def InitializeEntryPoint_def emptyDataSharingFunctionInfo_def
      EmitRegion_def entry_simps inline_simps)
  apply (simp add: builder_simps createKernelInitializerFunction_blocks(2))
  done


lemma fuel8: "n + 8 = Suc (Suc (Suc (Suc (Suc (Suc (Suc (Suc n)))))))"
  by simp

lemma eval_getThreadLimit [simp]:
  "eval s getThreadLimit = DInt (nvptx_num_threads s - nvptx_warp_size s)"
  by (simp add: getThreadLimit_def getNVPTXNumThreads_def getNVPTXWarpSize_def)

lemma eval_getNVPTXThreadWarpID [simp]:
  "eval s getNVPTXThreadWarpID = DInt (nvptx_tid s AND DS_Max_Worker_Warp_Size_Log2_Mask)"
  by (simp add: getNVPTXThreadWarpID_def getNVPTXThreadID_def)

lemma run_initializer:
  assumes "M W = None"
  shows "\<exists>s'. run M (n + 5) (createKernelInitializerFunction W) 0 s =
           Returned (DInt (if \<not> nvptx_tid s < nvptx_num_threads s - nvptx_warp_size s \<and>
                              nvptx_tid s = MasterThreadId s then 0 else 1)) s' \<and>
         regions_run s' = regions_run s @
           (if nvptx_tid s < nvptx_num_threads s - nvptx_warp_size s then [W] else []) \<and>
         nvptx_tid s' = nvptx_tid s \<and> nvptx_num_threads s' = nvptx_num_threads s \<and>
         nvptx_warp_size s' = nvptx_warp_size s"
proof (cases "nvptx_tid s < nvptx_num_threads s - nvptx_warp_size s")
  case True
  then show ?thesis using assms
    by (simp add: fuel5 createKernelInitializerFunction_blocks store_def set_reg_def
        regions_run_def called_def)
next
  case False
  then show ?thesis using assms
    by (simp add: fuel5 createKernelInitializerFunction_blocks store_def set_reg_def
        regions_run_def called_def MasterThreadId_def)
qed

lemma run_kernelEntry:
  assumes "Blocks Fn =
       [\<lparr>BBName = ''entry'',
         Insts = [CallInst 4 (Direct ''__omp_kernel_initialization'') []],
         BBTerm = Some (CondBr (CreateICmpEQ (CallValue 4) (getNullValue Int32Ty)) 3 1)\<rparr>,
        \<lparr>BBName = ''.sleepy.hollow'', Insts = [], BBTerm = Some (Ret None)\<rparr>,
        \<lparr>BBName = ''.termination.notifier'',
         Insts = [CallInst 2 (RuntimeFunction OMPRTL_NVPTX__kmpc_kernel_deinit) [],
                  CallInst 3 nvvm_barrier0 []],
         BBTerm = Some (Br 1)\<rparr>,
        \<lparr>BBName = ''.master'',
         Insts = [CallInst 0 (RuntimeFunction OMPRTL_NVPTX__kmpc_kernel_init)
                    [getInt32 0, getThreadLimit],
                  CallInst 1 (Direct ''sequential_body'') []],
         BBTerm = Some (Br 2)\<rparr>]"
  shows "outcome (run [''__omp_kernel_initialization'' \<mapsto>
                        createKernelInitializerFunction ''kernel_worker''] (n + 8) Fn 0 s) =
     Left (regions_run s @ ''__omp_kernel_initialization'' #
       (if nvptx_tid s < nvptx_num_threads s - nvptx_warp_size s then [''kernel_worker'']
        else if nvptx_tid s = MasterThreadId s then [''sequential_body''] else []))"
proof -
  let ?M = "[''__omp_kernel_initialization'' \<mapsto>
              createKernelInitializerFunction ''kernel_worker'']"
  let ?s1 = "s\<lparr>events := events s @ [Ev (Direct ''__omp_kernel_initialization'') []],
               args := [], regs := (\<lambda>r. DPoison)\<rparr>"
  have W: "?M ''kernel_worker'' = None" by simp
  obtain s' where s': "run ?M (Suc n + 5) (createKernelInitializerFunction ''kernel_worker'') 0 ?s1 =
           Returned (DInt (if \<not> nvptx_tid ?s1 < nvptx_num_threads ?s1 - nvptx_warp_size ?s1 \<and>
                              nvptx_tid ?s1 = MasterThreadId ?s1 then 0 else 1)) s'"
    "regions_run s' = regions_run ?s1 @
           (if nvptx_tid ?s1 < nvptx_num_threads ?s1 - nvptx_warp_size ?s1 then [''kernel_worker''] else [])"
    using run_initializer [of ?M "''kernel_worker''" "Suc n" ?s1] W by blast
  have r: "run ?M (Suc (Suc (Suc (Suc (Suc (Suc n)))))) (createKernelInitializerFunction ''kernel_worker'') 0
      ?s1 = Returned (DInt (if \<not> nvptx_tid s < nvptx_num_threads s - nvptx_warp_size s \<and>
                              nvptx_tid s = MasterThreadId s then 0 else 1)) s'"
    using s'(1) by (simp add: fuel5 MasterThreadId_def)
  have rr: "regions_run s' = regions_run s @ ''__omp_kernel_initialization'' #
           (if nvptx_tid s < nvptx_num_threads s - nvptx_warp_size s then [''kernel_worker''] else [])"
    using s'(2) by (simp add: regions_run_def called_def)
  show ?thesis
    using assms r rr
    by (simp add: fuel8 set_reg_def outcome_def regions_run_def called_def)
qed


lemma thread_limit_is_master:
  assumes "W = (2 ^ k :: i32)" and "k < 32" and "N \<noteq> 0" and "unat W dvd unat N"
  shows "N - W = (N - 1) AND NOT (W - 1)"
proof -
  have W: "unat W = 2 ^ k" unfolding assms(1) using assms(2) by (rule unat_pow2)
  obtain m where m: "unat N = 2 ^ k * m" using assms(4) W by (auto simp: dvd_def)
  have m0: "0 < m" using m assms(3) by (cases m) (simp_all add: unat_eq_0)
  have le: "W \<le> N" using m m0 W by (simp add: word_le_nat_alt)
  have "(2 ^ k * m - 1) div 2 ^ k = m - (1::nat)"
  proof -
    define r :: nat where "r = 2 ^ k - 1"
    have r: "r < 2 ^ k" by (simp add: r_def)
    have "2 ^ k * m - 1 = 2 ^ k * (m - 1) + r"
      using m0 by (cases m) (simp_all add: r_def algebra_simps)
    then show ?thesis using r by simp
  qed
  then have "unat ((N - 1) AND NOT (W - 1)) = (m - 1) * 2 ^ k"
    using first_lane_of_last_group [OF assms(1-3)] m W by simp
  moreover have "unat (N - W) = (m - 1) * 2 ^ k"
    using le m W by (simp add: unat_sub algebra_simps diff_mult_distrib2)
  ultimately show ?thesis by (simp add: word_unat_eq_iff)
qed

lemma kernel_outcome_partition:
  "kernel_outcome (n + 8) s =
     Inr (Left (regions_run s @ ''__omp_kernel_initialization'' #
       (if nvptx_tid s < nvptx_num_threads s - nvptx_warp_size s then [''kernel_worker'']
        else if nvptx_tid s = MasterThreadId s then [''sequential_body''] else [])))"
proof -
  obtain Ptr Fn where k: "kernelEntry ''kernel'' ''kernel_worker'' (EmitRegion ''sequential_body'') =
       Inr (Ptr, Fn, createKernelInitializerFunction ''kernel_worker'')"
    and b: "Blocks Fn =
       [\<lparr>BBName = ''entry'',
         Insts = [CallInst 4 (Direct ''__omp_kernel_initialization'') []],
         BBTerm = Some (CondBr (CreateICmpEQ (CallValue 4) (getNullValue Int32Ty)) 3 1)\<rparr>,
        \<lparr>BBName = ''.sleepy.hollow'', Insts = [], BBTerm = Some (Ret None)\<rparr>,
        \<lparr>BBName = ''.termination.notifier'',
         Insts = [CallInst 2 (RuntimeFunction OMPRTL_NVPTX__kmpc_kernel_deinit) [],
                  CallInst 3 nvvm_barrier0 []],
         BBTerm = Some (Br 1)\<rparr>,
        \<lparr>BBName = ''.master'',
         Insts = [CallInst 0 (RuntimeFunction OMPRTL_NVPTX__kmpc_kernel_init)
                    [getInt32 0, getThreadLimit],
                  CallInst 1 (Direct ''sequential_body'') []],
         BBTerm = Some (Br 2)\<rparr>]"
    using kernelEntry_blocks [of "''kernel''" "''kernel_worker''"] by blast
  show ?thesis
    unfolding kernel_outcome_def k
    by (simp only: sum.case prod.case createKernelInitializerFunction_blocks(2)
        run_kernelEntry [OF b])
qed

lemma entry_has_nothing_to_share:
  "NothingToShare (fst (emitTargetEntryFunction OutlinedFn WorkerFn CodeGen))"
  by (simp add: NothingToShare_def emitTargetEntryFunction_def emitEntryHeader_def
      emptyDataSharingFunctionInfo_def split_def Let_def)

text \<open>
  C9, amended. In the kernel, every lane, in any state and with any fuel from 8 on, first
  calls \<^verbatim>\<open>__omp_kernel_initialization\<close>, and what it does next is decided by its thread id
  alone. A lane whose id is below the thread limit \<open>N - W\<close> (number of threads minus warp
  size, unsigned) calls the worker function and then returns from the kernel without
  running the sequential body. Any other lane whose id is the master id \<open>(N - 1) AND NOT
  (W - 1)\<close> runs the sequential body. Every remaining lane returns without calling
  anything. The thread limit is the master id, so that the workers are the range
  \<open>[0, MasterThreadId)\<close>, when the warp size is a power of two and the number of threads
  is a multiple of it. Otherwise the lanes from the thread limit up to the master are
  parked too: with 33 threads the master is lane 32 and lane 0 is the only worker.
\<close>

theorem kernel_entry_partitions_by_thread_limit:
  "kernel_outcome (n + 8) s =
     Inr (Left (regions_run s @ ''__omp_kernel_initialization'' #
       (if nvptx_tid s < nvptx_num_threads s - nvptx_warp_size s then [''kernel_worker'']
        else if nvptx_tid s = MasterThreadId s then [''sequential_body''] else []))) \<and>
   (nvptx_warp_size s = 2 ^ k \<and> k < 32 \<and> nvptx_num_threads s \<noteq> 0 \<and>
    unat (nvptx_warp_size s) dvd unat (nvptx_num_threads s) \<longrightarrow>
      nvptx_num_threads s - nvptx_warp_size s = MasterThreadId s)"
proof -
  have "nvptx_num_threads s - nvptx_warp_size s = MasterThreadId s"
    if "nvptx_warp_size s = 2 ^ k" "k < 32" "nvptx_num_threads s \<noteq> 0"
      "unat (nvptx_warp_size s) dvd unat (nvptx_num_threads s)"
    unfolding MasterThreadId_def using that by (rule thread_limit_is_master)
  then show ?thesis using kernel_outcome_partition by blast
qed

theorem kernel_entry_partitions_by_thread_limit_witness:
  "(32 :: i32) = 2 ^ 5 \<and> (5 :: nat) < 32 \<and> (128 :: i32) \<noteq> 0 \<and>
   unat (32 :: i32) dvd unat (128 :: i32) \<and>
   (128 :: i32) - 32 = MasterThreadId (kernel_start 5 128 32 0) \<and>
   kernel_outcome 8 (kernel_start 5 128 32 0) =
     Inr (Left [''__omp_kernel_initialization'', ''kernel_worker'']) \<and>
   kernel_outcome 8 (kernel_start 96 128 32 0) =
     Inr (Left [''__omp_kernel_initialization'', ''sequential_body'']) \<and>
   kernel_outcome 8 (kernel_start 100 128 32 0) =
     Inr (Left [''__omp_kernel_initialization''])"
  using kernel_entry_partitions_by_thread_limit [of 0 "kernel_start 5 128 32 0" 5]
    kernel_entry_partitions_by_thread_limit [of 0 "kernel_start 96 128 32 0" 5]
    kernel_entry_partitions_by_thread_limit [of 0 "kernel_start 100 128 32 0" 5]
  by (simp add: MasterThreadId_def regions_run_def)

theorem kernel_entry_worker_range_counterexample:
  "unat (5 :: i32) < unat (MasterThreadId (kernel_start 5 33 32 0)) \<and>
   kernel_outcome 8 (kernel_start 5 33 32 0) = Inr (Left [''__omp_kernel_initialization''])"
  using kernel_outcome_partition [of 0 "kernel_start 5 33 32 0"]
  by (simp add: MasterThreadId_def regions_run_def)


end
